theory Spec2Isabelle
  imports Main "HOL-Library.Multiset"
begin

text \<open>
  The route handlers of the portfolio application and the library functions they call,
  as functions from a request and the state of the external services to a response and
  the new state. The first part holds the definitions, in the order of the source files;
  the second part the facts proved about them.
\<close>

section \<open>Thrown errors and the response envelope\<close>

text \<open>
  Every route handler wraps its body in \<^verbatim>\<open>try { ... } catch (error)\<close> and maps the caught
  value to a status: the error's own numeric \<^verbatim>\<open>status\<close> property when it has one, 500
  otherwise. A thrown value is therefore modelled by its class, its message and its
  optional \<^verbatim>\<open>status\<close> property.

  \<^item> \<^verbatim>\<open>new Error(m)\<close> has no \<^verbatim>\<open>status\<close>;
  \<^item> \<^verbatim>\<open>Object.assign(new Error(m), { status: s })\<close> has \<^verbatim>\<open>status = s\<close>;
  \<^item> \<^verbatim>\<open>new AuthError(m, s)\<close> (src/lib/auth.ts) sets \<^verbatim>\<open>this.status = s\<close>;
  \<^item> a \<^verbatim>\<open>ZodError\<close> (thrown by \<^verbatim>\<open>schema.parse\<close>) and a \<^verbatim>\<open>SyntaxError\<close> (thrown by
    \<^verbatim>\<open>request.json()\<close> or \<^verbatim>\<open>response.json()\<close>) are library errors that extend
    \<^verbatim>\<open>Error\<close> and carry no \<^verbatim>\<open>status\<close> property.
\<close>

datatype error_class = PlainError | AuthError | ZodError | SyntaxError | TypeError

record js_error =
  err_class :: error_class
  err_message :: string
  err_status :: "nat option"

text \<open>
  A property of an object literal whose value may be \<^verbatim>\<open>undefined\<close>: such a property is
  left out when the object is serialised, which is not the same as sending null.
\<close>

datatype 'a js_optional = Undefined | Defined 'a

definition new_Error :: "string \<Rightarrow> js_error" where
  "new_Error m = \<lparr>err_class = PlainError, err_message = m, err_status = None\<rparr>"

definition new_Error_with_status :: "string \<Rightarrow> nat \<Rightarrow> js_error" where
  "new_Error_with_status m s = \<lparr>err_class = PlainError, err_message = m, err_status = Some s\<rparr>"

definition new_AuthError :: "string \<Rightarrow> nat \<Rightarrow> js_error" where
  "new_AuthError m s = \<lparr>err_class = AuthError, err_message = m, err_status = Some s\<rparr>"

definition new_ZodError :: "string \<Rightarrow> js_error" where
  "new_ZodError m = \<lparr>err_class = ZodError, err_message = m, err_status = None\<rparr>"

definition new_SyntaxError :: "string \<Rightarrow> js_error" where
  "new_SyntaxError m = \<lparr>err_class = SyntaxError, err_message = m, err_status = None\<rparr>"

definition new_TypeError :: "string \<Rightarrow> js_error" where
  "new_TypeError m = \<lparr>err_class = TypeError, err_message = m, err_status = None\<rparr>"

text \<open>src/unnamed/part_009 (lib/response): the uniform envelope.\<close>

record 'a StandardResponse =
  success :: bool
  data :: "'a option"
  error :: "string option"
  status_code :: nat

definition standardResponse ::
  "bool \<Rightarrow> 'a option \<Rightarrow> nat \<Rightarrow> string option \<Rightarrow> 'a StandardResponse" where
  "standardResponse ok d statusCode err =
     \<lparr>success = ok,
      data = (if ok then d else None),
      error = (if ok then None
               else Some (case err of
                            None \<Rightarrow> ''Unexpected error''
                          | Some e \<Rightarrow> if e = [] then ''Unexpected error'' else e)),
      status_code = statusCode\<rparr>"

text \<open>
  \<^verbatim>\<open>NextResponse.json(body)\<close> answers with HTTP status 200;
  \<^verbatim>\<open>NextResponse.json(body, { status })\<close> with the given status.
\<close>

record 'a http_response =
  http_status :: nat
  body :: "'a StandardResponse"

definition json_response :: "'a StandardResponse \<Rightarrow> 'a http_response" where
  "json_response b = \<lparr>http_status = 200, body = b\<rparr>"

definition json_response_status :: "'a StandardResponse \<Rightarrow> nat \<Rightarrow> 'a http_response" where
  "json_response_status b s = \<lparr>http_status = s, body = b\<rparr>"

text \<open>The catch block shared by every handler.\<close>

definition caught_status :: "js_error \<Rightarrow> nat" where
  "caught_status e = (case err_status e of Some s \<Rightarrow> s | None \<Rightarrow> 500)"

definition catch_response :: "js_error \<Rightarrow> 'a http_response" where
  "catch_response e =
     json_response_status
       (standardResponse False None (caught_status e) (Some (err_message e)))
       (caught_status e)"

section \<open>Request bodies and the zod schemas\<close>

datatype json =
    JNull
  | JBool bool
  | JNumber int
  | JString string
  | JArray "json list"
  | JObject "(string \<times> json) list"

text \<open>Property lookup on a parsed JSON object: the last occurrence of a key wins.\<close>

definition field :: "(string \<times> json) list \<Rightarrow> string \<Rightarrow> json option" where
  "field kvs k = map_of (rev kvs) k"

text \<open>
  A request: its \<^verbatim>\<open>Authorization\<close> header, its query parameters, its body parsed as
  JSON (absent when the body is not JSON) and the \<^verbatim>\<open>File\<close> entries named \<^verbatim>\<open>files\<close> of its
  body read as form data (absent when the body is not form data).
\<close>

record uploaded_file =
  upload_name :: string
  upload_type :: string
  upload_size :: nat

record request =
  authorization :: "string option"
  search_params :: "(string \<times> string) list"
  json_body :: "json option"
  form_files :: "uploaded_file list option"

text \<open>\<^verbatim>\<open>await request.json()\<close>: throws a SyntaxError when the body is not JSON.\<close>

definition request_json :: "request \<Rightarrow> js_error + json" where
  "request_json req =
     (case json_body req of
        None \<Rightarrow> Inl (new_SyntaxError ''Unexpected end of JSON input'')
      | Some j \<Rightarrow> Inr j)"

text \<open>\<^verbatim>\<open>searchParams.get(name)\<close>: the first value of the name, or null.\<close>

definition searchParams_get :: "request \<Rightarrow> string \<Rightarrow> string option" where
  "searchParams_get req k = map_of (search_params req) k"

text \<open>
  The regular expression \<^verbatim>\<open>/^[^/]+\/[^/]+$/\<close> of \<^verbatim>\<open>importSchema\<close>
  (src/app/api/projects/route.ts): one or more characters other than a slash, one slash,
  one or more characters other than a slash, and nothing else.
\<close>

definition owner_repo_regex :: "string \<Rightarrow> bool" where
  "owner_repo_regex s =
     (let owner = takeWhile (\<lambda>c. c \<noteq> CHR ''/'') s;
          rest = dropWhile (\<lambda>c. c \<noteq> CHR ''/'') s
      in owner \<noteq> [] \<and> rest \<noteq> [] \<and> tl rest \<noteq> [] \<and> CHR ''/'' \<notin> set (tl rest))"

text \<open>
  \<^verbatim>\<open>importSchema.parse\<close>: the body must be an object whose
  \<^verbatim>\<open>repository_full_name\<close> is a string of length at least 1 matching the regular
  expression. The message of the real ZodError is the JSON text of its issues; the model
  keeps the issue's message.
\<close>

definition importSchema_parse :: "json \<Rightarrow> js_error + string" where
  "importSchema_parse j =
     (case j of
        JObject kvs \<Rightarrow>
          (case field kvs ''repository_full_name'' of
             Some (JString s) \<Rightarrow>
               if length s < 1 then Inl (new_ZodError ''String must contain at least 1 character(s)'')
               else if \<not> owner_repo_regex s then
                 Inl (new_ZodError ''repository_full_name must be owner/repo'')
               else Inr s
           | Some _ \<Rightarrow> Inl (new_ZodError ''Expected string'')
           | None \<Rightarrow> Inl (new_ZodError ''Required''))
      | _ \<Rightarrow> Inl (new_ZodError ''Expected object''))"

section \<open>The external services\<close>

text \<open>
  The identity provider, the relational datastore, object storage and the third-party
  API are services outside the repository. They are the handlers' environment: a record
  of the tables' rows and of the replies the services give, together with the log of the
  calls made to them so far.
\<close>

record supabase_user =
  uid :: string
  user_name :: "string option"
  user_email :: "string option"

text \<open>The reply of \<^verbatim>\<open>adminClient.auth.getUser(token)\<close>: \<^verbatim>\<open>{ data: { user }, error }\<close>.\<close>

record auth_reply =
  auth_error :: "string option"
  auth_user :: "supabase_user option"

record pg_error =
  pg_message :: string
  pg_code :: "string option"

datatype Role = developer | expert

text \<open>\<^verbatim>\<open>ProfileRow\<close> (src/lib/auth.ts, second document: lib/profiles).\<close>

record ProfileRow =
  profile_id :: string
  username :: "string option"
  full_name :: "string option"
  role :: "Role option"
  avatar_url :: "string option"

text \<open>
  The types of src/lib/github.ts. \<open>owner_login\<close> is \<^verbatim>\<open>owner.login\<close>, absent when
  \<^verbatim>\<open>owner\<close> is null; \<open>repo_visibility\<close> is the optional property
  \<^verbatim>\<open>visibility?: string | null\<close>.
\<close>

record GithubApiUser =
  gh_id :: int
  login :: string
  gh_email :: "string option"
  gh_avatar_url :: "string option"
  gh_html_url :: string
  gh_updated_at :: "string option"

record GithubApiRepository =
  repo_id :: int
  repo_name :: string
  repo_full_name :: string
  repo_html_url :: string
  repo_description :: "string option"
  repo_private :: bool
  repo_fork :: bool
  repo_language :: "string option"
  stargazers_count :: "int option"
  watchers_count :: "int option"
  forks_count :: "int option"
  owner_login :: "string option"
  repo_created_at :: "string option"
  repo_updated_at :: "string option"
  repo_pushed_at :: "string option"
  repo_default_branch :: "string option"
  open_issues_count :: "int option"
  repo_visibility :: "string option js_optional"

record GithubContributionDayApi =
  date :: string
  contributionCount :: int

record GithubContributionWeekApi =
  contributionDays :: "GithubContributionDayApi list"

record GithubContributionCalendarApi =
  totalContributions :: "int option"
  weeks :: "GithubContributionWeekApi list option"

text \<open>
  \<^verbatim>\<open>GithubContributionsResponse\<close>: the handler reads
  \<^verbatim>\<open>data.data?.viewer?.contributionsCollection?.contributionCalendar ?? null\<close>, which is
  null as soon as one level is missing; the model keeps the calendar, absent when any
  level is.
\<close>

record GithubContributionsResponse =
  contributionCalendar :: "GithubContributionCalendarApi option"

text \<open>
  What \<^verbatim>\<open>fetch\<close> gives: a rejection (network failure), or a response with its status,
  its body text and the body parsed as JSON of the expected shape (absent when the text
  is not JSON).
\<close>

datatype 'a fetch_reply = FetchRejected string | FetchResponse nat string "'a option"

text \<open>The rows of the tables.\<close>

record user_token_row =
  tok_user_id :: string
  github_token :: "string option"
  tok_github_id :: int
  tok_username :: string
  tok_email :: "string option"
  tok_avatar_url :: "string option"
  tok_profile_url :: string
  tok_updated_at :: string

text \<open>
  The \<^verbatim>\<open>record\<close> that POST /api/projects upserts, and a row of \<^verbatim>\<open>projects\<close>.
  \<open>project_record\<close> holds the columns every import writes. The record of an import adds
  the two properties that may be undefined, \<^verbatim>\<open>visibility: repo.visibility\<close> and
  \<^verbatim>\<open>owner_username: repo.owner?.login\<close>; a row adds the columns \<^verbatim>\<open>visibility\<close> and
  \<^verbatim>\<open>owner_username\<close> and those the import never writes (the row id and the
  user-editable metadata).
\<close>

record project_record =
  user_id :: "string option"
  github_repo_id :: int
  repository_full_name :: string
  name :: string
  description :: "string option"
  html_url :: string
  is_private :: bool
  is_fork :: bool
  language :: "string option"
  stars :: int
  forks :: int
  watchers :: int
  open_issues :: int
  default_branch :: "string option"
  pushed_at :: "string option"
  created_at_github :: "string option"
  updated_at_github :: "string option"
  last_synced_at :: string

record import_properties =
  visibility_prop :: "string option js_optional"
  owner_username_prop :: "string js_optional"

type_synonym import_body = "import_properties project_record_scheme"

record project_columns =
  row_id :: string
  visibility :: "string option"
  owner_username :: "string option"
  notes_col :: "string option"
  tags :: "string list"
  status :: string
  updated_at :: "string option"

type_synonym project_row = "project_columns project_record_scheme"

record documentation_row =
  doc_project_id :: string
  content :: "json option"
  content_text :: "string option"
  doc_updated_at :: string
  updated_by :: string

record document_row =
  document_id :: string
  document_project_id :: string
  file_name :: string
  file_path :: string
  file_url :: string
  content_type :: string
  file_size :: nat
  created_at :: string

datatype call =
    AuthGetUser string
  | DbSelect string
  | DbUpsert string
  | DbInsert string
  | DbUpdate string
  | GithubFetch string
  | StorageUpload string

text \<open>
  \<open>db_fault n\<close> is the error, if any, the datastore answers to the call made when \<open>n\<close>
  external calls have been made; \<open>storage_fault\<close> likewise for object storage.
  \<open>new_row_id\<close> and \<open>new_row_columns\<close> are what the datastore fills in a row it
  inserts; \<open>now\<close> is \<^verbatim>\<open>new Date().toISOString()\<close> and \<open>now_ms\<close> is \<^verbatim>\<open>Date.now()\<close>
  printed in decimal. \<open>timestamp_rank\<close> is the chronological position of a timestamp
  column's value, by which the datastore orders rows (null ranks above every timestamp).
\<close>

record world =
  auth_getUser :: "string \<Rightarrow> auth_reply"
  profiles :: "ProfileRow list"
  projects :: "project_row list"
  user_tokens :: "user_token_row list"
  project_documentation :: "documentation_row list"
  project_documents :: "document_row list"
  db_fault :: "nat \<Rightarrow> pg_error option"
  storage_fault :: "nat \<Rightarrow> string option"
  stored_paths :: "string list"
  public_url :: "string \<Rightarrow> string"
  timestamp_rank :: "string option \<Rightarrow> int"
  github_user :: "string \<Rightarrow> GithubApiUser fetch_reply"
  github_repo :: "string \<Rightarrow> string \<Rightarrow> GithubApiRepository fetch_reply"
  github_graphql :: "string \<Rightarrow> GithubContributionsResponse fetch_reply"
  new_row_id :: string
  new_row_columns :: project_columns
  now :: string
  now_ms :: string
  calls :: "call list"

definition log_call :: "call \<Rightarrow> world \<Rightarrow> world" where
  "log_call c w = w\<lparr>calls := calls w @ [c]\<rparr>"

definition db_call :: "call \<Rightarrow> world \<Rightarrow> pg_error option \<times> world" where
  "db_call c w = (db_fault w (length (calls w)), log_call c w)"

text \<open>
  \<^verbatim>\<open>.maybeSingle()\<close>: no row gives null, one row gives the row, several rows are an error
  of the datastore client.
\<close>

definition maybeSingle :: "'r list \<Rightarrow> pg_error + 'r option" where
  "maybeSingle rows =
     (case rows of
        [] \<Rightarrow> Inr None
      | [r] \<Rightarrow> Inr (Some r)
      | _ \<Rightarrow> Inl \<lparr>pg_message = ''JSON object requested, multiple (or no) rows returned'',
                 pg_code = Some ''PGRST116''\<rparr>)"

definition select_maybeSingle ::
  "string \<Rightarrow> 'r list \<Rightarrow> world \<Rightarrow> (pg_error + 'r option) \<times> world" where
  "select_maybeSingle table rows w =
     (case db_call (DbSelect table) w of
        (Some e, w') \<Rightarrow> (Inl e, w')
      | (None, w') \<Rightarrow> (maybeSingle rows, w'))"

section \<open>Session verifier (src/lib/auth.ts)\<close>

fun split_space :: "string \<Rightarrow> string list" where
  "split_space [] = [[]]"
| "split_space (c # cs) =
     (if c = CHR '' '' then [] # split_space cs
      else (case split_space cs of
              p # ps \<Rightarrow> (c # p) # ps
            | [] \<Rightarrow> [[c]]))"

definition toLowerCase_char :: "char \<Rightarrow> char" where
  "toLowerCase_char c =
     (let n = (of_char c :: nat) in if 65 \<le> n \<and> n \<le> 90 then char_of (n + 32) else c)"

definition toLowerCase :: "string \<Rightarrow> string" where
  "toLowerCase s = map toLowerCase_char s"

definition extractBearerToken :: "string option \<Rightarrow> string option" where
  "extractBearerToken authHeader =
     (case authHeader of
        None \<Rightarrow> None
      | Some h \<Rightarrow>
          if h = [] then None
          else (case split_space h of
                  scheme # token # _ \<Rightarrow>
                    if toLowerCase scheme \<noteq> ''bearer'' \<or> token = [] then None else Some token
                | _ \<Rightarrow> None))"

text \<open>
  \<^verbatim>\<open>getTokenFromRequest\<close> reads the request's own header first. Without a token there it
  calls \<^verbatim>\<open>headers()\<close> of \<^verbatim>\<open>next/headers\<close> and reads \<^verbatim>\<open>.get\<close> on the result without
  awaiting it. In the Next.js generation the repository is written for (the one of the
  \<^verbatim>\<open>proxy.ts\<close> file convention) \<^verbatim>\<open>headers()\<close> returns a promise, which has no \<^verbatim>\<open>get\<close>:
  the call throws a TypeError.
\<close>

definition headerList_get :: "string \<Rightarrow> js_error + string option" where
  "headerList_get header = Inl (new_TypeError ''headerList.get is not a function'')"

definition getTokenFromRequest :: "request \<Rightarrow> js_error + string option" where
  "getTokenFromRequest req =
     (case extractBearerToken (authorization req) of
        Some token \<Rightarrow> Inr (Some token)
      | None \<Rightarrow>
          (case headerList_get ''authorization'' of
             Inl e \<Rightarrow> Inl e
           | Inr h \<Rightarrow>
               (case extractBearerToken h of
                  Some headerToken \<Rightarrow> Inr (Some headerToken)
                | None \<Rightarrow> Inr None)))"

definition assertSupabaseUser :: "request \<Rightarrow> world \<Rightarrow> (js_error + supabase_user) \<times> world" where
  "assertSupabaseUser req w =
     (case getTokenFromRequest req of
        Inl e \<Rightarrow> (Inl e, w)
      | Inr None \<Rightarrow> (Inl (new_AuthError ''Missing Authorization header'' 401), w)
      | Inr (Some accessToken) \<Rightarrow>
          (let reply = auth_getUser w accessToken; w' = log_call (AuthGetUser accessToken) w in
           case auth_error reply of
             Some m \<Rightarrow> (Inl (new_AuthError m 401), w')
           | None \<Rightarrow>
               (case auth_user reply of
                  None \<Rightarrow> (Inl (new_AuthError ''Invalid or expired token'' 401), w')
                | Some u \<Rightarrow> (Inr u, w'))))"

section \<open>Profile lookup (lib/profiles) and token vault (src/unnamed/part_008)\<close>

definition getProfileByUserId ::
  "string \<Rightarrow> world \<Rightarrow> (js_error + ProfileRow option) \<times> world" where
  "getProfileByUserId userId w =
     (case select_maybeSingle ''profiles'' (filter (\<lambda>p. profile_id p = userId) (profiles w)) w of
        (Inl e, w') \<Rightarrow> (Inl (new_Error (pg_message e)), w')
      | (Inr row, w') \<Rightarrow> (Inr row, w'))"

definition getGithubTokenForUser :: "string \<Rightarrow> world \<Rightarrow> (js_error + string) \<times> world" where
  "getGithubTokenForUser userId w =
     (case select_maybeSingle ''user_tokens''
             (filter (\<lambda>t. tok_user_id t = userId) (user_tokens w)) w of
        (Inl e, w') \<Rightarrow> (Inl (new_Error (pg_message e)), w')
      | (Inr row, w') \<Rightarrow>
          (case row of
             None \<Rightarrow> (Inl (new_Error ''GitHub token not found for user''), w')
           | Some t \<Rightarrow>
               (case github_token t of
                  None \<Rightarrow> (Inl (new_Error ''GitHub token not found for user''), w')
                | Some tok \<Rightarrow>
                    if tok = [] then (Inl (new_Error ''GitHub token not found for user''), w')
                    else (Inr tok, w'))))"

section \<open>Repository client (src/lib/github.ts)\<close>

definition digit_char :: "nat \<Rightarrow> char" where
  "digit_char d = char_of (48 + d)"

fun show_nat :: "nat \<Rightarrow> string" where
  "show_nat n = (if n < 10 then [digit_char n] else show_nat (n div 10) @ [digit_char (n mod 10)])"

declare show_nat.simps [simp del]

text \<open>\<^verbatim>\<open>response.ok\<close>: the status is in the range 200 to 299.\<close>

definition response_ok :: "nat \<Rightarrow> bool" where
  "response_ok st = (200 \<le> st \<and> st \<le> 299)"

text \<open>
  \<^verbatim>\<open>githubRequest\<close>, given the reply \<^verbatim>\<open>fetch\<close> receives for the path. The prefix of the
  fallback message is a parameter because \<^verbatim>\<open>fetchGithubContributions\<close> repeats the same
  body with its own text.
\<close>

definition github_reply :: "string \<Rightarrow> 'a fetch_reply \<Rightarrow> js_error + 'a" where
  "github_reply fallback reply =
     (case reply of
        FetchRejected m \<Rightarrow> Inl (new_TypeError m)
      | FetchResponse st text parsed \<Rightarrow>
          if \<not> response_ok st then
            Inl (new_Error (if text = [] then fallback @ show_nat st else text))
          else (case parsed of
                  None \<Rightarrow> Inl (new_SyntaxError ''Unexpected token in JSON'')
                | Some v \<Rightarrow> Inr v))"

definition githubRequest :: "string \<Rightarrow> 'a fetch_reply \<Rightarrow> world \<Rightarrow> (js_error + 'a) \<times> world" where
  "githubRequest path reply w =
     (github_reply ''GitHub request failed with '' reply, log_call (GithubFetch path) w)"

definition fetchGithubUser :: "string \<Rightarrow> world \<Rightarrow> (js_error + GithubApiUser) \<times> world" where
  "fetchGithubUser token w = githubRequest ''/user'' (github_user w token) w"

definition fetchRepoByFullName ::
  "string \<Rightarrow> string \<Rightarrow> world \<Rightarrow> (js_error + GithubApiRepository) \<times> world" where
  "fetchRepoByFullName token fullName w =
     githubRequest (''/repos/'' @ fullName) (github_repo w token fullName) w"

definition fetchGithubContributions ::
  "string \<Rightarrow> world \<Rightarrow> (js_error + GithubContributionsResponse) \<times> world" where
  "fetchGithubContributions token w =
     (github_reply ''GitHub GraphQL failed with '' (github_graphql w token),
      log_call (GithubFetch ''/graphql'') w)"

section \<open>Response payloads\<close>

record contribution =
  contribution_date :: string
  contribution_count :: int

type_synonym project_with_profile = "project_row \<times> ProfileRow option"

record GroupedProject =
  owner_id :: string
  owner :: "ProfileRow option"
  group_projects :: "project_with_profile list"

datatype payload =
    Message string
  | Contributions int "contribution list"
  | Grouped "GroupedProject list"
  | ProjectList "(project_row \<times> nat) list"
  | Project "project_row option"
  | ProjectWithDocuments project_row "document_row list"
  | Documentation "documentation_row option"
  | Documents "document_row list"

definition ok_response :: "payload \<Rightarrow> payload http_response" where
  "ok_response d = json_response (standardResponse True (Some d) 200 None)"

definition fail_response :: "nat \<Rightarrow> string \<Rightarrow> payload http_response" where
  "fail_response st m = json_response_status (standardResponse False None st (Some m)) st"

section \<open>GET /api/github/contributions\<close>

definition flatten_weeks :: "GithubContributionWeekApi list \<Rightarrow> contribution list" where
  "flatten_weeks ws =
     concat (map (\<lambda>week. map (\<lambda>day. \<lparr>contribution_date = date day, contribution_count = contributionCount day\<rparr>)
                            (contributionDays week)) ws)"

definition GET_contributions :: "request \<Rightarrow> world \<Rightarrow> payload http_response \<times> world" where
  "GET_contributions req w =
     (case assertSupabaseUser req w of
        (Inl e, w1) \<Rightarrow> (catch_response e, w1)
      | (Inr user, w1) \<Rightarrow>
          (case getGithubTokenForUser (uid user) w1 of
             (Inl e, w2) \<Rightarrow> (catch_response e, w2)
           | (Inr githubToken, w2) \<Rightarrow>
               (case fetchGithubContributions githubToken w2 of
                  (Inl e, w3) \<Rightarrow> (catch_response e, w3)
                | (Inr d, w3) \<Rightarrow>
                    (let calendar = contributionCalendar d;
                         contributions =
                           (case calendar of
                              None \<Rightarrow> []
                            | Some c \<Rightarrow> (case weeks c of None \<Rightarrow> [] | Some ws \<Rightarrow> flatten_weeks ws));
                         total_contributions =
                           (case calendar of
                              None \<Rightarrow> 0
                            | Some c \<Rightarrow> (case totalContributions c of None \<Rightarrow> 0 | Some n \<Rightarrow> n))
                     in (ok_response (Contributions total_contributions contributions), w3)))))"

section \<open>POST /api/auth/store-github-token\<close>

definition optional_string :: "json option \<Rightarrow> bool" where
  "optional_string v = (case v of None \<Rightarrow> True | Some (JString _) \<Rightarrow> True | Some _ \<Rightarrow> False)"

definition payloadSchema_parse :: "json \<Rightarrow> js_error + string" where
  "payloadSchema_parse j =
     (case j of
        JObject kvs \<Rightarrow>
          (case field kvs ''provider_token'' of
             Some (JString s) \<Rightarrow>
               if length s < 1 then Inl (new_ZodError ''provider_token is required'')
               else if \<not> optional_string (field kvs ''access_token'') then
                 Inl (new_ZodError ''Expected string'')
               else if \<not> optional_string (field kvs ''refresh_token'') then
                 Inl (new_ZodError ''Expected string'')
               else Inr s
           | Some _ \<Rightarrow> Inl (new_ZodError ''Expected string'')
           | None \<Rightarrow> Inl (new_ZodError ''Required''))
      | _ \<Rightarrow> Inl (new_ZodError ''Expected object''))"

text \<open>
  \<^verbatim>\<open>.upsert(record, { onConflict: column })\<close>: the datastore's insert-or-update. A row
  whose conflict column equals the record's is overwritten in the columns the record
  gives (\<open>merge\<close>); without such a row the record is inserted.
\<close>

definition upsert_rows :: "('r \<Rightarrow> 'k) \<Rightarrow> ('r \<Rightarrow> 'r) \<Rightarrow> 'r \<Rightarrow> 'r list \<Rightarrow> 'r list" where
  "upsert_rows key merge new rows =
     (if key new \<in> key ` set rows
      then map (\<lambda>r. if key r = key new then merge r else r) rows
      else rows @ [new])"

definition upsert_user_token :: "user_token_row \<Rightarrow> world \<Rightarrow> pg_error option \<times> world" where
  "upsert_user_token rec w =
     (case db_call (DbUpsert ''user_tokens'') w of
        (Some e, w') \<Rightarrow> (Some e, w')
      | (None, w') \<Rightarrow>
          (None, w'\<lparr>user_tokens := upsert_rows tok_user_id (\<lambda>_. rec) rec (user_tokens w')\<rparr>))"

definition POST_store_github_token :: "request \<Rightarrow> world \<Rightarrow> payload http_response \<times> world" where
  "POST_store_github_token req w =
     (case assertSupabaseUser req w of
        (Inl e, w1) \<Rightarrow> (catch_response e, w1)
      | (Inr user, w1) \<Rightarrow>
          (case request_json req of
             Inl e \<Rightarrow> (catch_response e, w1)
           | Inr payload \<Rightarrow>
               (case payloadSchema_parse payload of
                  Inl e \<Rightarrow> (catch_response e, w1)
                | Inr provider_token \<Rightarrow>
                    (case fetchGithubUser provider_token w1 of
                       (Inl e, w2) \<Rightarrow> (catch_response e, w2)
                     | (Inr githubProfile, w2) \<Rightarrow>
                         (let rec = \<lparr>tok_user_id = uid user,
                                     github_token = Some provider_token,
                                     tok_github_id = gh_id githubProfile,
                                     tok_username = login githubProfile,
                                     tok_email = gh_email githubProfile,
                                     tok_avatar_url = gh_avatar_url githubProfile,
                                     tok_profile_url = gh_html_url githubProfile,
                                     tok_updated_at = now w2\<rparr>
                          in case upsert_user_token rec w2 of
                               (Some e, w3) \<Rightarrow> (catch_response (new_Error (pg_message e)), w3)
                             | (None, w3) \<Rightarrow>
                                 (ok_response (Message ''GitHub token stored''), w3))))))"

section \<open>GET and POST /api/projects (src/app/api/projects/route.ts)\<close>

text \<open>\<^verbatim>\<open>[...new Set(xs)]\<close>: the first occurrence of every element, in order.\<close>

fun uniq :: "'a list \<Rightarrow> 'a list" where
  "uniq [] = []"
| "uniq (x # xs) = x # filter (\<lambda>y. y \<noteq> x) (uniq xs)"

text \<open>\<^verbatim>\<open>.map(p => p.user_id).filter(Boolean)\<close>: null and the empty string are dropped.\<close>

definition truthy_user_ids :: "project_row list \<Rightarrow> string list" where
  "truthy_user_ids ps =
     concat (map (\<lambda>p. case user_id p of None \<Rightarrow> [] | Some u \<Rightarrow> if u = [] then [] else [u]) ps)"

text \<open>
  The reducer of the expert view. The accumulator is an object keyed by owner id, read
  back with \<^verbatim>\<open>Object.values\<close>: an association list in insertion order (owner ids are
  UUIDs or \<^verbatim>\<open>"unknown"\<close>, never integer-like keys, which JavaScript would enumerate
  first).
\<close>

definition group_step :: "GroupedProject list \<Rightarrow> project_with_profile \<Rightarrow> GroupedProject list" where
  "group_step acc project =
     (let ownerId = (case user_id (fst project) of None \<Rightarrow> ''unknown'' | Some u \<Rightarrow> u)
      in if ownerId \<in> owner_id ` set acc
         then map (\<lambda>g. if owner_id g = ownerId
                        then g\<lparr>group_projects := group_projects g @ [project]\<rparr> else g) acc
         else acc @ [\<lparr>owner_id = ownerId, owner = snd project, group_projects = [project]\<rparr>])"

definition grouped :: "project_with_profile list \<Rightarrow> GroupedProject list" where
  "grouped ps = foldl group_step [] ps"

definition select_rows :: "string \<Rightarrow> 'r list \<Rightarrow> world \<Rightarrow> (pg_error + 'r list) \<times> world" where
  "select_rows table rows w =
     (case db_call (DbSelect table) w of
        (Some e, w') \<Rightarrow> (Inl e, w')
      | (None, w') \<Rightarrow> (Inr rows, w'))"

text \<open>
  \<^verbatim>\<open>.order("stars", { ascending: false })\<close>: by stars, descending (rows with equal stars
  are kept in table order here; the datastore promises no order among them).
\<close>

definition GET_projects :: "request \<Rightarrow> world \<Rightarrow> payload http_response \<times> world" where
  "GET_projects req w =
     (case assertSupabaseUser req w of
        (Inl e, w1) \<Rightarrow> (catch_response e, w1)
      | (Inr user, w1) \<Rightarrow>
          (let view = (case searchParams_get req ''view'' of None \<Rightarrow> ''developer'' | Some v \<Rightarrow> v)
           in if view = ''expert'' then
                (case select_rows ''projects'' (sort_key (\<lambda>p. - stars p) (projects w1)) w1 of
                   (Inl e, w2) \<Rightarrow> (catch_response (new_Error (pg_message e)), w2)
                 | (Inr projectsData, w2) \<Rightarrow>
                     (let userIds = uniq (truthy_user_ids projectsData)
                      in case select_rows ''profiles''
                                (filter (\<lambda>p. profile_id p \<in> set userIds) (profiles w2)) w2 of
                           (Inl e, w3) \<Rightarrow> (catch_response (new_Error (pg_message e)), w3)
                         | (Inr profilesData, w3) \<Rightarrow>
                             (let profilesMap = map_of (rev (map (\<lambda>p. (profile_id p, p)) profilesData));
                                  projectsWithProfiles =
                                    map (\<lambda>project.
                                           (project,
                                            case user_id project of
                                              None \<Rightarrow> None
                                            | Some u \<Rightarrow> profilesMap u)) projectsData
                              in (ok_response (Grouped (grouped projectsWithProfiles)), w3))))
              else
                (case select_rows ''projects''
                        (sort_key (\<lambda>p. - timestamp_rank w1 (updated_at (project_record.more p)))
                           (filter (\<lambda>p. user_id p = Some (uid user)) (projects w1))) w1 of
                   (Inl e, w2) \<Rightarrow> (catch_response (new_Error (pg_message e)), w2)
                 | (Inr rows, w2) \<Rightarrow>
                     (ok_response
                        (ProjectList
                           (map (\<lambda>p. (p, length (filter (\<lambda>d. document_project_id d = row_id (project_record.more p))
                                                      (project_documents w2)))) rows)), w2))))"

definition nullish_int :: "int option \<Rightarrow> int" where
  "nullish_int v = (case v of None \<Rightarrow> 0 | Some n \<Rightarrow> n)"

text \<open>
  The upsert of POST /api/projects, \<^verbatim>\<open>onConflict: "github_repo_id"\<close>, followed by
  \<^verbatim>\<open>.select("*").single()\<close>. The request body holds the properties of the record that
  are not undefined. On a row with the same repository id the columns of the body are
  overwritten and every other column stays: the columns the import never writes, and
  \<^verbatim>\<open>visibility\<close> or \<^verbatim>\<open>owner_username\<close> when the property is undefined. A new row takes
  the datastore's values for the columns the body does not give. \<^verbatim>\<open>.single()\<close> fails
  unless exactly one row comes back.
\<close>

definition write_optional :: "import_properties \<Rightarrow> project_columns \<Rightarrow> project_columns" where
  "write_optional props cols =
     cols\<lparr>visibility := (case visibility_prop props of
                            Undefined \<Rightarrow> visibility cols
                          | Defined v \<Rightarrow> v),
          owner_username := (case owner_username_prop props of
                               Undefined \<Rightarrow> owner_username cols
                             | Defined l \<Rightarrow> Some l)\<rparr>"

definition upserted_row :: "import_body \<Rightarrow> project_columns \<Rightarrow> project_row" where
  "upserted_row rec cols =
     project_record.extend (project_record.truncate rec)
       (write_optional (project_record.more rec) cols)"

definition upsert_project :: "import_body \<Rightarrow> world \<Rightarrow> (pg_error + project_row) \<times> world" where
  "upsert_project rec w =
     (case db_call (DbUpsert ''projects'') w of
        (Some e, w') \<Rightarrow> (Inl e, w')
      | (None, w') \<Rightarrow>
          (let rows = upsert_rows github_repo_id
                        (\<lambda>r. upserted_row rec (project_record.more r))
                        (upserted_row rec (new_row_columns w'))
                        (projects w');
               w'' = w'\<lparr>projects := rows\<rparr>
           in case filter (\<lambda>r. github_repo_id r = github_repo_id rec) rows of
                [r] \<Rightarrow> (Inr r, w'')
              | _ \<Rightarrow> (Inl \<lparr>pg_message = ''JSON object requested, multiple (or no) rows returned'',
                          pg_code = Some ''PGRST116''\<rparr>, w'')))"

text \<open>The object literal \<^verbatim>\<open>record\<close> of POST, built from the fetched repository.\<close>

definition import_record ::
  "supabase_user \<Rightarrow> string \<Rightarrow> GithubApiRepository \<Rightarrow> string \<Rightarrow> import_body" where
  "import_record user fullName repo synced =
     \<lparr>user_id = Some (uid user),
      github_repo_id = repo_id repo,
      repository_full_name = fullName,
      name = repo_name repo,
      description = repo_description repo,
      html_url = repo_html_url repo,
      is_private = repo_private repo,
      is_fork = repo_fork repo,
      language = repo_language repo,
      stars = nullish_int (stargazers_count repo),
      forks = nullish_int (forks_count repo),
      watchers = nullish_int (watchers_count repo),
      open_issues = nullish_int (open_issues_count repo),
      default_branch = repo_default_branch repo,
      pushed_at = repo_pushed_at repo,
      created_at_github = repo_created_at repo,
      updated_at_github = repo_updated_at repo,
      last_synced_at = synced,
      \<dots> = \<lparr>visibility_prop = repo_visibility repo,
             owner_username_prop = (case owner_login repo of
                                      None \<Rightarrow> Undefined
                                    | Some l \<Rightarrow> Defined l)\<rparr>\<rparr>"

definition POST_projects :: "request \<Rightarrow> world \<Rightarrow> payload http_response \<times> world" where
  "POST_projects req w =
     (case assertSupabaseUser req w of
        (Inl e, w1) \<Rightarrow> (catch_response e, w1)
      | (Inr user, w1) \<Rightarrow>
          (case request_json req of
             Inl e \<Rightarrow> (catch_response e, w1)
           | Inr j \<Rightarrow>
               (case importSchema_parse j of
                  Inl e \<Rightarrow> (catch_response e, w1)
                | Inr fullName \<Rightarrow>
                    (case getGithubTokenForUser (uid user) w1 of
                       (Inl e, w2) \<Rightarrow> (catch_response e, w2)
                     | (Inr githubToken, w2) \<Rightarrow>
                         (case fetchRepoByFullName githubToken fullName w2 of
                            (Inl e, w3) \<Rightarrow> (catch_response e, w3)
                          | (Inr repo, w3) \<Rightarrow>
                              (case upsert_project (import_record user fullName repo (now w3)) w3 of
                                 (Inl e, w4) \<Rightarrow> (catch_response (new_Error (pg_message e)), w4)
                               | (Inr row, w4) \<Rightarrow>
                                   (json_response_status
                                      (standardResponse True (Some (Project (Some row))) 201 None)
                                      201, w4)))))))"

section \<open>Project-scoped access\<close>

text \<open>The columns \<^verbatim>\<open>id, user_id\<close> that \<^verbatim>\<open>ensureAccess\<close> selects.\<close>

record project_ref =
  ref_id :: string
  ref_user_id :: "string option"

definition project_refs :: "string \<Rightarrow> world \<Rightarrow> project_ref list" where
  "project_refs projectId w =
     map (\<lambda>p. \<lparr>ref_id = row_id (project_record.more p), ref_user_id = user_id p\<rparr>)
         (filter (\<lambda>p. row_id (project_record.more p) = projectId) (projects w))"

definition is_expert :: "ProfileRow option \<Rightarrow> bool" where
  "is_expert profile = (case profile of None \<Rightarrow> False | Some p \<Rightarrow> role p = Some expert)"

record access =
  project :: "project_ref option"
  profile :: "ProfileRow option"
  isOwner :: bool
  isExpert :: bool

text \<open>\<^verbatim>\<open>ensureAccess\<close> of src/app/api/projects/[id]/documentation/route.ts.\<close>

definition ensureAccess_documentation ::
  "string \<Rightarrow> string \<Rightarrow> world \<Rightarrow> (js_error + access) \<times> world" where
  "ensureAccess_documentation projectId userId w =
     (case getProfileByUserId userId w of
        (Inl e, w1) \<Rightarrow> (Inl e, w1)
      | (Inr prof, w1) \<Rightarrow>
          (case select_maybeSingle ''projects'' (project_refs projectId w1) w1 of
             (Inl e, w2) \<Rightarrow> (Inl (new_Error (pg_message e)), w2)
           | (Inr None, w2) \<Rightarrow>
               (Inr \<lparr>project = None, profile = prof, isOwner = False, isExpert = is_expert prof\<rparr>, w2)
           | (Inr (Some d), w2) \<Rightarrow>
               (let owner_flag = (ref_user_id d = Some userId);
                    expert_flag = is_expert prof
                in if \<not> owner_flag \<and> \<not> expert_flag
                   then (Inl (new_Error_with_status ''Not authorized'' 403), w2)
                   else (Inr \<lparr>project = Some d, profile = prof,
                              isOwner = owner_flag, isExpert = expert_flag\<rparr>, w2))))"

text \<open>
  \<^verbatim>\<open>ensureAccess\<close> of src/app/api/projects/[id]/attachments/route.ts: the same checks; the
  result holds the project and the profile only.
\<close>

definition ensureAccess_attachments ::
  "string \<Rightarrow> string \<Rightarrow> world \<Rightarrow> (js_error + project_ref option \<times> ProfileRow option) \<times> world" where
  "ensureAccess_attachments projectId userId w =
     (case getProfileByUserId userId w of
        (Inl e, w1) \<Rightarrow> (Inl e, w1)
      | (Inr prof, w1) \<Rightarrow>
          (case select_maybeSingle ''projects'' (project_refs projectId w1) w1 of
             (Inl e, w2) \<Rightarrow> (Inl (new_Error (pg_message e)), w2)
           | (Inr None, w2) \<Rightarrow> (Inr (None, prof), w2)
           | (Inr (Some d), w2) \<Rightarrow>
               (let owner_flag = (ref_user_id d = Some userId);
                    expert_flag = is_expert prof
                in if \<not> owner_flag \<and> \<not> expert_flag
                   then (Inl (new_Error_with_status ''Not authorized'' 403), w2)
                   else (Inr (Some d, prof), w2))))"

section \<open>GET and PUT /api/projects/{id}/documentation\<close>

definition starts_with :: "string \<Rightarrow> string \<Rightarrow> bool" where
  "starts_with s p = (take (length p) s = p)"

fun includes_str :: "string \<Rightarrow> string \<Rightarrow> bool" where
  "includes_str [] sub = (sub = [])"
| "includes_str (c # cs) sub = (starts_with (c # cs) sub \<or> includes_str cs sub)"

definition isTableMissing :: "pg_error \<Rightarrow> bool" where
  "isTableMissing e =
     (let normalizedMessage = toLowerCase (pg_message e)
      in pg_code e = Some ''PGRST116'' \<or>
         pg_code e = Some ''PGRST101'' \<or>
         includes_str normalizedMessage ''could not find the table'' \<or>
         includes_str normalizedMessage
           (''relationship '' @ [CHR 0x27] @ ''project_documentation'' @ [CHR 0x27]))"

definition GET_documentation :: "string \<Rightarrow> request \<Rightarrow> world \<Rightarrow> payload http_response \<times> world" where
  "GET_documentation pid req w =
     (case assertSupabaseUser req w of
        (Inl e, w1) \<Rightarrow> (catch_response e, w1)
      | (Inr user, w1) \<Rightarrow>
          (case ensureAccess_documentation pid (uid user) w1 of
             (Inl e, w2) \<Rightarrow> (catch_response e, w2)
           | (Inr acc, w2) \<Rightarrow>
               (case project acc of
                  None \<Rightarrow> (fail_response 404 ''Project not found'', w2)
                | Some _ \<Rightarrow>
                    (case select_maybeSingle ''project_documentation''
                            (filter (\<lambda>d. doc_project_id d = pid) (project_documentation w2)) w2 of
                       (Inl e, w3) \<Rightarrow>
                         if isTableMissing e then (ok_response (Documentation None), w3)
                         else (catch_response (new_Error (pg_message e)), w3)
                     | (Inr row, w3) \<Rightarrow> (ok_response (Documentation row), w3)))))"

text \<open>
  \<^verbatim>\<open>updateSchema\<close> of the documentation route: \<^verbatim>\<open>content\<close> is anything,
  \<^verbatim>\<open>content_text\<close> is absent, null or a string of at most 20000 characters. The result
  is \<^verbatim>\<open>(payload.content ?? null, payload.content_text ?? null)\<close>.
\<close>

definition documentation_updateSchema_parse :: "json \<Rightarrow> js_error + json option \<times> string option" where
  "documentation_updateSchema_parse j =
     (case j of
        JObject kvs \<Rightarrow>
          (let c = (case field kvs ''content'' of Some JNull \<Rightarrow> None | v \<Rightarrow> v)
           in case field kvs ''content_text'' of
                None \<Rightarrow> Inr (c, None)
              | Some JNull \<Rightarrow> Inr (c, None)
              | Some (JString t) \<Rightarrow>
                  if length t > 20000
                  then Inl (new_ZodError ''String must contain at most 20000 character(s)'')
                  else Inr (c, Some t)
              | Some _ \<Rightarrow> Inl (new_ZodError ''Expected string''))
      | _ \<Rightarrow> Inl (new_ZodError ''Expected object''))"

definition upsert_documentation ::
  "documentation_row \<Rightarrow> world \<Rightarrow> (pg_error + documentation_row option) \<times> world" where
  "upsert_documentation rec w =
     (case db_call (DbUpsert ''project_documentation'') w of
        (Some e, w') \<Rightarrow> (Inl e, w')
      | (None, w') \<Rightarrow>
          (let rows = upsert_rows doc_project_id (\<lambda>_. rec) rec (project_documentation w')
           in (maybeSingle (filter (\<lambda>d. doc_project_id d = doc_project_id rec) rows),
               w'\<lparr>project_documentation := rows\<rparr>)))"

definition PUT_documentation :: "string \<Rightarrow> request \<Rightarrow> world \<Rightarrow> payload http_response \<times> world" where
  "PUT_documentation pid req w =
     (case assertSupabaseUser req w of
        (Inl e, w1) \<Rightarrow> (catch_response e, w1)
      | (Inr user, w1) \<Rightarrow>
          (case ensureAccess_documentation pid (uid user) w1 of
             (Inl e, w2) \<Rightarrow> (catch_response e, w2)
           | (Inr acc, w2) \<Rightarrow>
               (case project acc of
                  None \<Rightarrow> (fail_response 404 ''Project not found'', w2)
                | Some _ \<Rightarrow>
                    if \<not> isOwner acc then
                      (fail_response 403 ''Only project owners can update documentation'', w2)
                    else
                      (case request_json req of
                         Inl e \<Rightarrow> (catch_response e, w2)
                       | Inr j \<Rightarrow>
                           (case documentation_updateSchema_parse j of
                              Inl e \<Rightarrow> (catch_response e, w2)
                            | Inr (c, t) \<Rightarrow>
                                (case upsert_documentation
                                        \<lparr>doc_project_id = pid, content = c, content_text = t,
                                         doc_updated_at = now w2, updated_by = uid user\<rparr> w2 of
                                   (Inl e, w3) \<Rightarrow>
                                     if isTableMissing e then
                                       (fail_response 503
                                          ''Project documentation storage is not configured. Please run the associated migration.'',
                                        w3)
                                     else (catch_response (new_Error (pg_message e)), w3)
                                 | (Inr row, w3) \<Rightarrow> (ok_response (Documentation row), w3)))))))"

section \<open>GET and POST /api/projects/{id}/attachments\<close>

definition storage_upload :: "string \<Rightarrow> world \<Rightarrow> string option \<times> world" where
  "storage_upload filePath w =
     (case storage_fault w (length (calls w)) of
        Some m \<Rightarrow> (Some m, log_call (StorageUpload filePath) w)
      | None \<Rightarrow>
          (None, (log_call (StorageUpload filePath) w)
                   \<lparr>stored_paths := uniq (stored_paths w @ [filePath])\<rparr>))"

definition insert_document :: "document_row \<Rightarrow> world \<Rightarrow> (pg_error + document_row) \<times> world" where
  "insert_document row w =
     (case db_call (DbInsert ''project_documents'') w of
        (Some e, w') \<Rightarrow> (Inl e, w')
      | (None, w') \<Rightarrow> (Inr row, w'\<lparr>project_documents := project_documents w' @ [row]\<rparr>))"

text \<open>The loop \<^verbatim>\<open>for (const file of files)\<close> of POST, with \<open>uploads\<close> as accumulator.\<close>

fun upload_files ::
  "project_ref \<Rightarrow> string \<Rightarrow> uploaded_file list \<Rightarrow> document_row list \<Rightarrow> world
     \<Rightarrow> (js_error + document_row list) \<times> world" where
  "upload_files proj pid [] uploads w = (Inr uploads, w)"
| "upload_files proj pid (file # files) uploads w =
     (let filePath = (case ref_user_id proj of None \<Rightarrow> ''null'' | Some u \<Rightarrow> u) @ ''/'' @ pid @ ''/''
                       @ now_ms w @ ''-'' @ upload_name file
      in case storage_upload filePath w of
           (Some m, w1) \<Rightarrow> (Inl (new_Error m), w1)
         | (None, w1) \<Rightarrow>
             (case insert_document
                     \<lparr>document_id = new_row_id w1, document_project_id = pid,
                      file_name = upload_name file, file_path = filePath,
                      file_url = public_url w1 filePath, content_type = upload_type file,
                      file_size = upload_size file, created_at = now w1\<rparr> w1 of
                (Inl e, w2) \<Rightarrow> (Inl (new_Error (pg_message e)), w2)
              | (Inr docRecord, w2) \<Rightarrow> upload_files proj pid files (uploads @ [docRecord]) w2))"

definition GET_attachments :: "string \<Rightarrow> request \<Rightarrow> world \<Rightarrow> payload http_response \<times> world" where
  "GET_attachments pid req w =
     (case assertSupabaseUser req w of
        (Inl e, w1) \<Rightarrow> (catch_response e, w1)
      | (Inr user, w1) \<Rightarrow>
          (case ensureAccess_attachments pid (uid user) w1 of
             (Inl e, w2) \<Rightarrow> (catch_response e, w2)
           | (Inr (None, _), w2) \<Rightarrow> (fail_response 404 ''Project not found'', w2)
           | (Inr (Some _, _), w2) \<Rightarrow>
               (case select_rows ''project_documents''
                       (sort_key (\<lambda>d. - timestamp_rank w2 (Some (created_at d)))
                          (filter (\<lambda>d. document_project_id d = pid) (project_documents w2))) w2 of
                  (Inl e, w3) \<Rightarrow> (catch_response (new_Error (pg_message e)), w3)
                | (Inr rows, w3) \<Rightarrow> (ok_response (Documents rows), w3))))"

definition POST_attachments :: "string \<Rightarrow> request \<Rightarrow> world \<Rightarrow> payload http_response \<times> world" where
  "POST_attachments pid req w =
     (case assertSupabaseUser req w of
        (Inl e, w1) \<Rightarrow> (catch_response e, w1)
      | (Inr user, w1) \<Rightarrow>
          (case ensureAccess_attachments pid (uid user) w1 of
             (Inl e, w2) \<Rightarrow> (catch_response e, w2)
           | (Inr (None, _), w2) \<Rightarrow> (fail_response 404 ''Project not found'', w2)
           | (Inr (Some proj, _), w2) \<Rightarrow>
               (case form_files req of
                  None \<Rightarrow> (catch_response (new_TypeError ''Failed to parse body as FormData.''), w2)
                | Some files \<Rightarrow>
                    if length files = 0 then (fail_response 400 ''No files provided'', w2)
                    else (case upload_files proj pid files [] w2 of
                            (Inl e, w3) \<Rightarrow> (catch_response e, w3)
                          | (Inr uploads, w3) \<Rightarrow>
                              (json_response_status
                                 (standardResponse True (Some (Documents uploads)) 201 None) 201,
                               w3)))))"

section \<open>GET and PATCH /api/projects/{id} (src/unnamed/part_003)\<close>

definition GET_project :: "string \<Rightarrow> request \<Rightarrow> world \<Rightarrow> payload http_response \<times> world" where
  "GET_project pid req w =
     (case assertSupabaseUser req w of
        (Inl e, w1) \<Rightarrow> (catch_response e, w1)
      | (Inr user, w1) \<Rightarrow>
          (case getProfileByUserId (uid user) w1 of
             (Inl e, w2) \<Rightarrow> (catch_response e, w2)
           | (Inr prof, w2) \<Rightarrow>
               (case select_maybeSingle ''projects''
                       (filter (\<lambda>p. row_id (project_record.more p) = pid) (projects w2)) w2 of
                  (Inl e, w3) \<Rightarrow> (catch_response (new_Error (pg_message e)), w3)
                | (Inr None, w3) \<Rightarrow> (fail_response 404 ''Project not found'', w3)
                | (Inr (Some d), w3) \<Rightarrow>
                    (let owner_flag = (user_id d = Some (uid user));
                         expert_flag = is_expert prof
                     in if \<not> owner_flag \<and> \<not> expert_flag
                        then (fail_response 403 ''Not authorized'', w3)
                        else (ok_response
                                (ProjectWithDocuments d
                                   (filter (\<lambda>x. document_project_id x = pid) (project_documents w3))),
                              w3)))))"

text \<open>
  \<^verbatim>\<open>updateSchema\<close> of the metadata route: \<^verbatim>\<open>notes\<close> is absent, null or a string,
  \<^verbatim>\<open>tags\<close> is absent or an array of strings, \<^verbatim>\<open>status\<close> is absent or one of the
  three states. An absent property is \<open>None\<close>; a null \<^verbatim>\<open>notes\<close> is \<open>Some None\<close>.
\<close>

record metadata_update =
  upd_notes :: "string option option"
  upd_tags :: "string list option"
  upd_status :: "string option"

fun json_strings :: "json list \<Rightarrow> string list option" where
  "json_strings [] = Some []"
| "json_strings (JString t # js) = (case json_strings js of None \<Rightarrow> None | Some ts \<Rightarrow> Some (t # ts))"
| "json_strings (_ # js) = None"

definition metadata_updateSchema_parse :: "json \<Rightarrow> js_error + metadata_update" where
  "metadata_updateSchema_parse j =
     (case j of
        JObject kvs \<Rightarrow>
          (case (case field kvs ''notes'' of
                   None \<Rightarrow> Some None
                 | Some JNull \<Rightarrow> Some (Some None)
                 | Some (JString t) \<Rightarrow> Some (Some (Some t))
                 | Some _ \<Rightarrow> None) of
             None \<Rightarrow> Inl (new_ZodError ''Expected string'')
           | Some n \<Rightarrow>
               (case (case field kvs ''tags'' of
                        None \<Rightarrow> Some None
                      | Some (JArray js) \<Rightarrow> (case json_strings js of None \<Rightarrow> None | Some ts \<Rightarrow> Some (Some ts))
                      | Some _ \<Rightarrow> None) of
                  None \<Rightarrow> Inl (new_ZodError ''Expected array of strings'')
                | Some t \<Rightarrow>
                    (case field kvs ''status'' of
                       None \<Rightarrow> Inr \<lparr>upd_notes = n, upd_tags = t, upd_status = None\<rparr>
                     | Some (JString st) \<Rightarrow>
                         if st \<in> {''draft'', ''in_review'', ''published''}
                         then Inr \<lparr>upd_notes = n, upd_tags = t, upd_status = Some st\<rparr>
                         else Inl (new_ZodError ''Invalid enum value'')
                     | Some _ \<Rightarrow> Inl (new_ZodError ''Invalid enum value''))))
      | _ \<Rightarrow> Inl (new_ZodError ''Expected object''))"

definition apply_update :: "metadata_update \<Rightarrow> string \<Rightarrow> project_row \<Rightarrow> project_row" where
  "apply_update u t p =
     p\<lparr>project_record.more :=
         (project_record.more p)
           \<lparr>notes_col := (case upd_notes u of None \<Rightarrow> notes_col (project_record.more p) | Some n \<Rightarrow> n),
            tags := (case upd_tags u of None \<Rightarrow> tags (project_record.more p) | Some ts \<Rightarrow> ts),
            status := (case upd_status u of None \<Rightarrow> status (project_record.more p) | Some st \<Rightarrow> st),
            updated_at := Some t\<rparr>\<rparr>"

definition update_project ::
  "string \<Rightarrow> metadata_update \<Rightarrow> world \<Rightarrow> (pg_error + project_row option) \<times> world" where
  "update_project pid u w =
     (case db_call (DbUpdate ''projects'') w of
        (Some e, w') \<Rightarrow> (Inl e, w')
      | (None, w') \<Rightarrow>
          (let rows = map (\<lambda>p. if row_id (project_record.more p) = pid then apply_update u (now w') p else p)
                          (projects w')
           in (maybeSingle (filter (\<lambda>p. row_id (project_record.more p) = pid) rows),
               w'\<lparr>projects := rows\<rparr>)))"

definition PATCH_project :: "string \<Rightarrow> request \<Rightarrow> world \<Rightarrow> payload http_response \<times> world" where
  "PATCH_project pid req w =
     (case assertSupabaseUser req w of
        (Inl e, w1) \<Rightarrow> (catch_response e, w1)
      | (Inr user, w1) \<Rightarrow>
          (case getProfileByUserId (uid user) w1 of
             (Inl e, w2) \<Rightarrow> (catch_response e, w2)
           | (Inr prof, w2) \<Rightarrow>
               (case request_json req of
                  Inl e \<Rightarrow> (catch_response e, w2)
                | Inr j \<Rightarrow>
                    (case metadata_updateSchema_parse j of
                       Inl e \<Rightarrow> (catch_response e, w2)
                     | Inr u \<Rightarrow>
                         (case select_maybeSingle ''projects''
                                 (map user_id (filter (\<lambda>p. row_id (project_record.more p) = pid)
                                                 (projects w2))) w2 of
                            (Inl e, w3) \<Rightarrow> (catch_response (new_Error (pg_message e)), w3)
                          | (Inr None, w3) \<Rightarrow> (fail_response 404 ''Project not found'', w3)
                          | (Inr (Some owner_col), w3) \<Rightarrow>
                              (let owner_flag = (owner_col = Some (uid user));
                                   expert_flag = is_expert prof
                               in if \<not> owner_flag \<and> \<not> expert_flag
                                  then (fail_response 403 ''Not authorized'', w3)
                                  else (case update_project pid u w3 of
                                          (Inl e, w4) \<Rightarrow>
                                            (catch_response (new_Error (pg_message e)), w4)
                                        | (Inr updated, w4) \<Rightarrow>
                                            (ok_response (Project updated), w4))))))))"

section \<open>The profile of the dashboard and project pages\<close>

text \<open>
  src/app/dashboard/page.tsx and the project page (src/unnamed/part_007) read the profile
  of the verified user and fall back to an object built in place:
  \<^verbatim>\<open>(await getProfileByUserId(user.id)) ?? { id: user.id, ..., role: "developer" }\<close>.
\<close>

definition DashboardPage_profile :: "supabase_user \<Rightarrow> world \<Rightarrow> (js_error + ProfileRow) \<times> world" where
  "DashboardPage_profile user w =
     (case getProfileByUserId (uid user) w of
        (Inl e, w') \<Rightarrow> (Inl e, w')
      | (Inr (Some p), w') \<Rightarrow> (Inr p, w')
      | (Inr None, w') \<Rightarrow>
          (Inr \<lparr>profile_id = uid user,
                username = (case user_name user of Some n \<Rightarrow> Some n | None \<Rightarrow> user_email user),
                full_name = None, role = Some developer, avatar_url = None\<rparr>, w'))"

definition ProjectDetailPage_profile ::
  "supabase_user \<Rightarrow> world \<Rightarrow> (js_error + ProfileRow) \<times> world" where
  "ProjectDetailPage_profile user w =
     (case getProfileByUserId (uid user) w of
        (Inl e, w') \<Rightarrow> (Inl e, w')
      | (Inr (Some p), w') \<Rightarrow> (Inr p, w')
      | (Inr None, w') \<Rightarrow>
          (Inr \<lparr>profile_id = uid user, username = None, full_name = None,
                role = Some developer, avatar_url = None\<rparr>, w'))"

section \<open>Sample data\<close>

text \<open>A small deployment on which the theorems below are exercised.\<close>

definition dev_user :: supabase_user where
  "dev_user = \<lparr>uid = ''dev-1'', user_name = Some ''octocat'', user_email = None\<rparr>"

definition expert_user :: supabase_user where
  "expert_user = \<lparr>uid = ''exp-1'', user_name = Some ''hubot'', user_email = None\<rparr>"

definition new_user :: supabase_user where
  "new_user = \<lparr>uid = ''new-1'', user_name = None, user_email = Some ''new@example.org''\<rparr>"

definition hello_world :: GithubApiRepository where
  "hello_world =
     \<lparr>repo_id = 1296269, repo_name = ''Hello-World'', repo_full_name = ''octocat/Hello-World'',
      repo_html_url = ''https://github.com/octocat/Hello-World'',
      repo_description = Some ''My first repository'', repo_private = False, repo_fork = False,
      repo_language = None, stargazers_count = Some 80, watchers_count = Some 80,
      forks_count = Some 9, owner_login = Some ''octocat'',
      repo_created_at = Some ''2011-01-26T19:01:12Z'', repo_updated_at = Some ''2011-01-26T19:14:43Z'',
      repo_pushed_at = Some ''2011-01-26T19:06:43Z'', repo_default_branch = Some ''master'',
      open_issues_count = Some 0, repo_visibility = Defined (Some ''public'')\<rparr>"

definition hello_world_later :: GithubApiRepository where
  "hello_world_later =
     hello_world\<lparr>repo_name := ''Hello-Universe'', repo_description := Some ''Renamed'',
                 repo_language := Some ''C'', stargazers_count := Some 95, forks_count := Some 12,
                 repo_updated_at := Some ''2012-02-02T10:00:00Z'',
                 repo_pushed_at := Some ''2012-02-01T09:00:00Z'',
                 owner_login := None, repo_visibility := Undefined\<rparr>"

definition spoon_project :: project_row where
  "spoon_project =
     \<lparr>user_id = Some ''dev-1'', github_repo_id = 1300192, repository_full_name = ''octocat/Spoon-Knife'',
      name = ''Spoon-Knife'', description = None, html_url = ''https://github.com/octocat/Spoon-Knife'',
      is_private = False, is_fork = False, language = Some ''HTML'', stars = 12, forks = 3,
      watchers = 12, open_issues = 1,
      default_branch = Some ''main'', pushed_at = None, created_at_github = None,
      updated_at_github = None, last_synced_at = ''2023-12-31T00:00:00.000Z'',
      \<dots> = \<lparr>row_id = ''p1'', visibility = Some ''public'', owner_username = Some ''octocat'',
             notes_col = Some ''demo'', tags = [''html''], status = ''draft'',
             updated_at = None\<rparr>\<rparr>"

definition week_of :: "int \<Rightarrow> GithubContributionWeekApi" where
  "week_of n =
     \<lparr>contributionDays =
        [\<lparr>date = ''mon'', contributionCount = n\<rparr>, \<lparr>date = ''tue'', contributionCount = n + 1\<rparr>,
         \<lparr>date = ''wed'', contributionCount = n + 2\<rparr>, \<lparr>date = ''thu'', contributionCount = n + 3\<rparr>,
         \<lparr>date = ''fri'', contributionCount = n + 4\<rparr>, \<lparr>date = ''sat'', contributionCount = n + 5\<rparr>,
         \<lparr>date = ''sun'', contributionCount = n + 6\<rparr>]\<rparr>"

definition sample_calendar :: GithubContributionCalendarApi where
  "sample_calendar = \<lparr>totalContributions = Some 91, weeks = Some [week_of 0, week_of 10]\<rparr>"

definition sample_world :: world where
  "sample_world =
     \<lparr>auth_getUser =
        (\<lambda>t. if t = ''jwt-dev'' then \<lparr>auth_error = None, auth_user = Some dev_user\<rparr>
             else if t = ''jwt-exp'' then \<lparr>auth_error = None, auth_user = Some expert_user\<rparr>
             else if t = ''jwt-new'' then \<lparr>auth_error = None, auth_user = Some new_user\<rparr>
             else \<lparr>auth_error = Some ''invalid JWT'', auth_user = None\<rparr>),
      profiles =
        [\<lparr>profile_id = ''dev-1'', username = Some ''octocat'', full_name = None,
          role = Some developer, avatar_url = None\<rparr>,
         \<lparr>profile_id = ''exp-1'', username = Some ''hubot'', full_name = None,
          role = Some expert, avatar_url = None\<rparr>],
      projects = [spoon_project],
      user_tokens =
        [\<lparr>tok_user_id = ''dev-1'', github_token = Some ''gho_dev'', tok_github_id = 583231,
          tok_username = ''octocat'', tok_email = None, tok_avatar_url = None,
          tok_profile_url = ''https://github.com/octocat'',
          tok_updated_at = ''2023-12-31T00:00:00.000Z''\<rparr>],
      project_documentation = [],
      project_documents = [],
      db_fault = (\<lambda>_. None),
      storage_fault = (\<lambda>_. None),
      stored_paths = [],
      public_url = (\<lambda>p. ''https://storage.example/'' @ p),
      timestamp_rank = (\<lambda>_. 0),
      github_user =
        (\<lambda>t. if t = ''gho_dev''
             then FetchResponse 200 ''{}''
                    (Some \<lparr>gh_id = 583231, login = ''octocat'', gh_email = None,
                           gh_avatar_url = None, gh_html_url = ''https://github.com/octocat'',
                           gh_updated_at = None\<rparr>)
             else FetchResponse 401 ''Bad credentials'' None),
      github_repo =
        (\<lambda>t n. if t = ''gho_dev'' \<and> n = ''octocat/Hello-World''
               then FetchResponse 200 ''{}'' (Some hello_world)
               else FetchResponse 404 ''Not Found'' None),
      github_graphql =
        (\<lambda>t. if t = ''gho_dev''
             then FetchResponse 200 ''{}'' (Some \<lparr>contributionCalendar = Some sample_calendar\<rparr>)
             else FetchResponse 401 ''Bad credentials'' None),
      new_row_id = ''d1'',
      new_row_columns = \<lparr>row_id = ''p2'', visibility = None, owner_username = None,
                         notes_col = None, tags = [], status = ''draft'', updated_at = None\<rparr>,
      now = ''2024-01-01T00:00:00.000Z'',
      now_ms = ''1704067200000'',
      calls = []\<rparr>"

definition request_with :: "string \<Rightarrow> (string \<times> string) list \<Rightarrow> json option \<Rightarrow> request" where
  "request_with jwt params b =
     \<lparr>authorization = Some (''Bearer '' @ jwt), search_params = params, json_body = b,
      form_files = None\<rparr>"

definition import_request :: "string \<Rightarrow> string \<Rightarrow> request" where
  "import_request jwt fullName =
     request_with jwt [] (Some (JObject [(''repository_full_name'', JString fullName)]))"

text \<open>
  The repository \<^verbatim>\<open>octocat/Hello-World\<close> imported twice: once as it is in the sample
  deployment, and once more after it has been renamed and starred on the third-party
  side, where the second answer has a null owner and no \<^verbatim>\<open>visibility\<close> property.
\<close>

definition first_import :: "payload http_response \<times> world" where
  "first_import = POST_projects (import_request ''jwt-dev'' ''octocat/Hello-World'') sample_world"

definition later_world :: world where
  "later_world =
     (snd first_import)
       \<lparr>github_repo := (\<lambda>t n. FetchResponse 200 ''{}'' (Some hello_world_later)),
        now := ''2024-02-02T00:00:00.000Z''\<rparr>"

definition second_import :: "payload http_response \<times> world" where
  "second_import = POST_projects (import_request ''jwt-dev'' ''octocat/Hello-World'') later_world"

definition hello_row :: "GithubApiRepository \<Rightarrow> string \<Rightarrow> project_columns \<Rightarrow> project_row" where
  "hello_row repo synced cols =
     upserted_row (import_record dev_user ''octocat/Hello-World'' repo synced) cols"

definition first_row :: project_row where
  "first_row =
     hello_row hello_world ''2024-01-01T00:00:00.000Z''
       \<lparr>row_id = ''p2'', visibility = None, owner_username = None,
        notes_col = None, tags = [], status = ''draft'', updated_at = None\<rparr>"

definition second_row :: project_row where
  "second_row =
     hello_row hello_world_later ''2024-02-02T00:00:00.000Z'' (project_record.more first_row)"

text \<open>
  A deployment in which the GraphQL endpoint is down and answers 502 with a body that
  happens to read like the vault's message.
\<close>

definition bad_gateway_world :: world where
  "bad_gateway_world =
     sample_world\<lparr>github_graphql :=
                    (\<lambda>t. FetchResponse 502 ''GitHub token not found for user'' None)\<rparr>"

text \<open>
  What it means for the expert view's result to be grouped by owner: one group for each
  owner id, no group empty, every project under the id of its owner (\<^verbatim>\<open>"unknown"\<close> for a
  project without one).
\<close>

definition groups_ok :: "GroupedProject list \<Rightarrow> bool" where
  "groups_ok gs \<longleftrightarrow>
     distinct (map owner_id gs) \<and>
     (\<forall>g\<in>set gs. group_projects g \<noteq> [] \<and>
        (\<forall>p\<in>set (group_projects g).
           (case user_id (fst p) of None \<Rightarrow> ''unknown'' | Some u \<Rightarrow> u) = owner_id g))"

section \<open>Auxiliary facts\<close>

lemmas error_defs =
  new_Error_def new_Error_with_status_def new_AuthError_def new_ZodError_def
  new_SyntaxError_def new_TypeError_def

lemmas response_defs =
  standardResponse_def json_response_def json_response_status_def caught_status_def
  catch_response_def ok_response_def fail_response_def

lemma toLowerCase_Bearer: "toLowerCase ''Bearer'' = ''bearer''"
  by code_simp

lemma sample_tokens:
  "getTokenFromRequest (request_with ''jwt-dev'' ps b) = Inr (Some ''jwt-dev'')"
  "getTokenFromRequest (request_with ''jwt-exp'' ps b) = Inr (Some ''jwt-exp'')"
  "getTokenFromRequest (request_with ''jwt-new'' ps b) = Inr (Some ''jwt-new'')"
  by (simp_all add: getTokenFromRequest_def extractBearerToken_def request_with_def
        toLowerCase_Bearer)

lemma sample_sessions:
  "assertSupabaseUser (request_with ''jwt-dev'' ps b) sample_world =
     (Inr dev_user, log_call (AuthGetUser ''jwt-dev'') sample_world)"
  "assertSupabaseUser (request_with ''jwt-exp'' ps b) sample_world =
     (Inr expert_user, log_call (AuthGetUser ''jwt-exp'') sample_world)"
  "assertSupabaseUser (request_with ''jwt-new'' ps b) sample_world =
     (Inr new_user, log_call (AuthGetUser ''jwt-new'') sample_world)"
  by (simp_all add: assertSupabaseUser_def sample_tokens sample_world_def)

lemma log_call_fields [simp]:
  "auth_getUser (log_call c w) = auth_getUser w"
  "profiles (log_call c w) = profiles w"
  "projects (log_call c w) = projects w"
  "user_tokens (log_call c w) = user_tokens w"
  "project_documentation (log_call c w) = project_documentation w"
  "project_documents (log_call c w) = project_documents w"
  "db_fault (log_call c w) = db_fault w"
  "storage_fault (log_call c w) = storage_fault w"
  "github_user (log_call c w) = github_user w"
  "github_repo (log_call c w) = github_repo w"
  "github_graphql (log_call c w) = github_graphql w"
  "new_row_columns (log_call c w) = new_row_columns w"
  "now (log_call c w) = now w"
  "calls (log_call c w) = calls w @ [c]"
  by (simp_all add: log_call_def)

lemma select_maybeSingle_ok:
  "\<forall>n. db_fault w n = None \<Longrightarrow>
     select_maybeSingle table rows w = (maybeSingle rows, log_call (DbSelect table) w)"
  by (simp add: select_maybeSingle_def db_call_def)

lemma select_rows_ok:
  "\<forall>n. db_fault w n = None \<Longrightarrow> select_rows table rows w = (Inr rows, log_call (DbSelect table) w)"
  by (simp add: select_rows_def db_call_def)

lemma getGithubTokenForUser_ok:
  assumes "\<forall>n. db_fault w n = None"
    and "filter (\<lambda>t. tok_user_id t = userId) (user_tokens w) = [row]"
    and "github_token row = Some tok" "tok \<noteq> []"
  shows "getGithubTokenForUser userId w = (Inr tok, log_call (DbSelect ''user_tokens'') w)"
  using assms by (simp add: getGithubTokenForUser_def select_maybeSingle_ok maybeSingle_def)

lemma assertSupabaseUser_ok:
  assumes "assertSupabaseUser req w = (Inr user, w1)"
  shows "\<exists>t. getTokenFromRequest req = Inr (Some t) \<and> w1 = log_call (AuthGetUser t) w \<and>
             auth_user (auth_getUser w t) = Some user \<and> auth_error (auth_getUser w t) = None"
  using assms
  by (auto simp: assertSupabaseUser_def Let_def split: sum.splits option.splits)

lemma assertSupabaseUser_failure:
  assumes "assertSupabaseUser req w = (Inl e, w1)"
  shows "caught_status e = 401 \<or> caught_status e = 500"
  using assms
  by (auto simp: assertSupabaseUser_def getTokenFromRequest_def headerList_get_def Let_def
        caught_status_def error_defs split: sum.splits option.splits)

lemma assertSupabaseUser_rejected:
  assumes "getTokenFromRequest req = Inr (Some t)" "assertSupabaseUser req w = (Inl e, w1)"
  shows "err_class e = AuthError \<and> err_status e = Some 401"
  using assms
  by (auto simp: assertSupabaseUser_def Let_def new_AuthError_def split: option.splits)

lemma assertSupabaseUser_calls:
  assumes "assertSupabaseUser req w = (r, w1)"
  shows "w1 = w \<or> (\<exists>t. w1 = log_call (AuthGetUser t) w)"
  using assms
  by (auto simp: assertSupabaseUser_def Let_def split: sum.splits option.splits)

lemma getGithubTokenForUser_plain:
  "getGithubTokenForUser u w = (Inl e, w') \<Longrightarrow> err_class e = PlainError \<and> err_status e = None"
  by (auto simp: getGithubTokenForUser_def select_maybeSingle_def db_call_def error_defs
        split: prod.splits sum.splits option.splits if_splits)

lemma sample_world_fields:
  "profiles sample_world =
     [\<lparr>profile_id = ''dev-1'', username = Some ''octocat'', full_name = None,
       role = Some developer, avatar_url = None\<rparr>,
      \<lparr>profile_id = ''exp-1'', username = Some ''hubot'', full_name = None,
       role = Some expert, avatar_url = None\<rparr>]"
  "projects sample_world = [spoon_project]"
  "user_tokens sample_world =
     [\<lparr>tok_user_id = ''dev-1'', github_token = Some ''gho_dev'', tok_github_id = 583231,
       tok_username = ''octocat'', tok_email = None, tok_avatar_url = None,
       tok_profile_url = ''https://github.com/octocat'',
       tok_updated_at = ''2023-12-31T00:00:00.000Z''\<rparr>]"
  "project_documentation sample_world = []"
  "project_documents sample_world = []"
  "db_fault sample_world n = None"
  "github_user sample_world ''bad'' = FetchResponse 401 ''Bad credentials'' None"
  "github_repo sample_world ''gho_dev'' ''octocat/Hello-World'' = FetchResponse 200 ''{}'' (Some hello_world)"
  "github_repo sample_world ''gho_dev'' ''octocat/Nope'' = FetchResponse 404 ''Not Found'' None"
  "new_row_columns sample_world =
     \<lparr>row_id = ''p2'', visibility = None, owner_username = None,
      notes_col = None, tags = [], status = ''draft'', updated_at = None\<rparr>"
  "now sample_world = ''2024-01-01T00:00:00.000Z''"
  "calls sample_world = []"
  by (simp_all add: sample_world_def)

lemma sample_requests:
  "json_body (request_with jwt ps b) = b"
  "search_params (request_with jwt ps b) = ps"
  "form_files (request_with jwt ps b) = None"
  "json_body (import_request jwt n) = Some (JObject [(''repository_full_name'', JString n)])"
  by (simp_all add: request_with_def import_request_def)

lemma sample_import_sessions:
  "assertSupabaseUser (import_request ''jwt-dev'' n) sample_world =
     (Inr dev_user, log_call (AuthGetUser ''jwt-dev'') sample_world)"
  "assertSupabaseUser (import_request ''jwt-exp'' n) sample_world =
     (Inr expert_user, log_call (AuthGetUser ''jwt-exp'') sample_world)"
  unfolding import_request_def by (rule sample_sessions)+

lemma sample_users:
  "uid dev_user = ''dev-1''" "uid expert_user = ''exp-1''" "uid new_user = ''new-1''"
  by (simp_all add: dev_user_def expert_user_def new_user_def)

lemma no_fault_log [simp]: "(\<forall>n. db_fault (log_call c w) n = None) = (\<forall>n. db_fault w n = None)"
  by simp

lemma sample_no_fault: "\<forall>n. db_fault sample_world n = None"
  by (simp add: sample_world_def)


lemma getProfileByUserId_profiles:
  "profiles (snd (getProfileByUserId userId w)) = profiles w"
  by (simp add: getProfileByUserId_def select_maybeSingle_def db_call_def
           split: option.splits sum.splits prod.splits)

lemma getProfileByUserId_ok:
  "\<forall>n. db_fault w n = None \<Longrightarrow>
     getProfileByUserId userId w =
       (case maybeSingle (filter (\<lambda>p. profile_id p = userId) (profiles w)) of
          Inl e \<Rightarrow> (Inl (new_Error (pg_message e)), log_call (DbSelect ''profiles'') w)
        | Inr row \<Rightarrow> (Inr row, log_call (DbSelect ''profiles'') w))"
  by (simp add: getProfileByUserId_def select_maybeSingle_ok split: sum.splits)

section \<open>Contribution calendar flattening\<close>

lemma concat_nth_block:
  assumes "\<forall>xs\<in>set xss. length xs = k" "i < length xss" "j < k"
  shows "concat xss ! (k * i + j) = xss ! i ! j"
  using assms
proof (induction xss arbitrary: i)
  case Nil
  then show ?case by simp
next
  case (Cons xs xss)
  show ?case
  proof (cases i)
    case 0
    with Cons.prems show ?thesis by (simp add: nth_append)
  next
    case (Suc i')
    with Cons.prems have "concat xss ! (k * i' + j) = xss ! i' ! j"
      by (intro Cons.IH) auto
    moreover have "k * i + j = length xs + (k * i' + j)"
      using Suc Cons.prems by simp
    ultimately show ?thesis using Suc by (simp add: nth_append)
  qed
qed

lemma flatten_weeks_length:
  assumes "\<forall>week\<in>set ws. length (contributionDays week) = 7"
  shows "length (flatten_weeks ws) = 7 * length ws"
  using assms by (induction ws) (auto simp: flatten_weeks_def)

lemma flatten_weeks_nth:
  assumes "\<forall>week\<in>set ws. length (contributionDays week) = 7" "i < length ws" "j < 7"
  shows "flatten_weeks ws ! (7 * i + j) =
           \<lparr>contribution_date = date (contributionDays (ws ! i) ! j),
            contribution_count = contributionCount (contributionDays (ws ! i) ! j)\<rparr>"
proof -
  let ?f = "\<lambda>week. map (\<lambda>day. \<lparr>contribution_date = date day, contribution_count = contributionCount day\<rparr>)
                            (contributionDays week)"
  have "concat (map ?f ws) ! (7 * i + j) = map ?f ws ! i ! j"
    using assms by (intro concat_nth_block) auto
  then show ?thesis using assms by (simp add: flatten_weeks_def)
qed

text \<open>
  Claim C6. When the GraphQL query answers with a calendar of \<open>N\<close> weeks of 7 days each,
  GET /api/github/contributions succeeds with the flattened sequence: it has exactly
  \<open>7 * N\<close> entries, and entry \<open>7 * i + j\<close> carries the date and the count of day \<open>j\<close> of
  week \<open>i\<close>, so the week-then-day order is kept.
\<close>

theorem contributions_flattening:
  assumes auth: "assertSupabaseUser req w = (Inr user, w1)"
    and nofault: "\<forall>n. db_fault w n = None"
    and vault: "filter (\<lambda>t. tok_user_id t = uid user) (user_tokens w) = [row]"
               "github_token row = Some tok" "tok \<noteq> []"
    and reply: "github_graphql w tok = FetchResponse st text (Some \<lparr>contributionCalendar = Some cal\<rparr>)"
               "response_ok st"
    and cal: "weeks cal = Some ws" "\<forall>week\<in>set ws. length (contributionDays week) = 7"
  shows "fst (GET_contributions req w) =
           ok_response (Contributions (nullish_int (totalContributions cal)) (flatten_weeks ws)) \<and>
         length (flatten_weeks ws) = 7 * length ws \<and>
         (\<forall>i<length ws. \<forall>j<7.
            flatten_weeks ws ! (7 * i + j) =
              \<lparr>contribution_date = date (contributionDays (ws ! i) ! j),
               contribution_count = contributionCount (contributionDays (ws ! i) ! j)\<rparr>)"
proof -
  from assertSupabaseUser_ok[OF auth] obtain t where w1: "w1 = log_call (AuthGetUser t) w" by blast
  have tok: "getGithubTokenForUser (uid user) w1 = (Inr tok, log_call (DbSelect ''user_tokens'') w1)"
    using nofault vault by (intro getGithubTokenForUser_ok) (simp_all add: w1)
  have gq: "fetchGithubContributions tok (log_call (DbSelect ''user_tokens'') w1) =
              (Inr \<lparr>contributionCalendar = Some cal\<rparr>,
               log_call (GithubFetch ''/graphql'') (log_call (DbSelect ''user_tokens'') w1))"
    using reply by (simp add: fetchGithubContributions_def github_reply_def w1)
  have "fst (GET_contributions req w) =
           ok_response (Contributions (nullish_int (totalContributions cal)) (flatten_weeks ws))"
    using cal(1)
    by (simp add: GET_contributions_def auth tok gq nullish_int_def split: option.splits)
  then show ?thesis
    using flatten_weeks_length[OF cal(2)] flatten_weeks_nth[OF cal(2)] by blast
qed

theorem contributions_flattening_witness:
  "fst (GET_contributions (request_with ''jwt-dev'' [] None) sample_world) =
     ok_response (Contributions 91 (flatten_weeks [week_of 0, week_of 10])) \<and>
   length (flatten_weeks [week_of 0, week_of 10]) = 14 \<and>
   flatten_weeks [week_of 0, week_of 10] ! 9 = \<lparr>contribution_date = ''wed'', contribution_count = 12\<rparr>"
proof -
  have a: "assertSupabaseUser (request_with ''jwt-dev'' [] None) sample_world =
        (Inr dev_user, log_call (AuthGetUser ''jwt-dev'') sample_world)"
    by (rule sample_sessions)
  have b: "\<forall>n. db_fault sample_world n = None" by (simp add: sample_world_def)
  have c: "filter (\<lambda>t. tok_user_id t = uid dev_user) (user_tokens sample_world) =
        [\<lparr>tok_user_id = ''dev-1'', github_token = Some ''gho_dev'', tok_github_id = 583231,
          tok_username = ''octocat'', tok_email = None, tok_avatar_url = None,
          tok_profile_url = ''https://github.com/octocat'',
          tok_updated_at = ''2023-12-31T00:00:00.000Z''\<rparr>]"
    by (simp add: sample_world_def dev_user_def)
  have d: "github_graphql sample_world ''gho_dev'' =
        FetchResponse 200 ''{}'' (Some \<lparr>contributionCalendar = Some sample_calendar\<rparr>)"
    by (simp add: sample_world_def)
  have e: "weeks sample_calendar = Some [week_of 0, week_of 10]" by (simp add: sample_calendar_def)
  have f: "\<forall>week\<in>set [week_of 0, week_of 10]. length (contributionDays week) = 7"
    by (simp add: week_of_def)
  have g: "response_ok 200" by (simp add: response_ok_def)
  from contributions_flattening[OF a b c _ _ d g e f]
  have h: "fst (GET_contributions (request_with ''jwt-dev'' [] None) sample_world) =
           ok_response (Contributions (nullish_int (totalContributions sample_calendar)) (flatten_weeks [week_of 0, week_of 10]))"
    and i: "length (flatten_weeks [week_of 0, week_of 10]) = 7 * length [week_of 0, week_of 10]"
    and j: "\<forall>i<length [week_of 0, week_of 10]. \<forall>j<7.
            flatten_weeks [week_of 0, week_of 10] ! (7 * i + j) =
              \<lparr>contribution_date = date (contributionDays ([week_of 0, week_of 10] ! i) ! j),
               contribution_count = contributionCount (contributionDays ([week_of 0, week_of 10] ! i) ! j)\<rparr>"
    by simp_all
  from j[rule_format, of 1 2] have "flatten_weeks [week_of 0, week_of 10] ! 9 = \<lparr>contribution_date = ''wed'', contribution_count = 12\<rparr>"
    by (simp add: week_of_def)
  with h i show ?thesis by (simp add: sample_calendar_def nullish_int_def)
qed

section \<open>Upstream failures\<close>




section \<open>Profile reads\<close>

text \<open>
  Claim C8, as amended. \<^verbatim>\<open>getProfileByUserId\<close> only reads: it never changes the
  profiles table, and for a verified identity without a Profile row (and a datastore that
  answers) it returns null. The dashboard and project pages then use an in-memory profile
  with role developer, which is not stored either.
\<close>

theorem profile_read_creates_nothing:
  assumes nofault: "\<forall>n. db_fault w n = None"
    and absent: "filter (\<lambda>p. profile_id p = uid user) (profiles w) = []"
  shows "fst (getProfileByUserId (uid user) w) = Inr None \<and>
         profiles (snd (getProfileByUserId (uid user) w)) = profiles w \<and>
         (\<exists>p. fst (DashboardPage_profile user w) = Inr p \<and> profile_id p = uid user \<and>
              role p = Some developer) \<and>
         profiles (snd (DashboardPage_profile user w)) = profiles w \<and>
         (\<exists>p. fst (ProjectDetailPage_profile user w) = Inr p \<and> profile_id p = uid user \<and>
              role p = Some developer) \<and>
         profiles (snd (ProjectDetailPage_profile user w)) = profiles w \<and>
         (\<forall>userId' w'. profiles (snd (getProfileByUserId userId' w')) = profiles w')"
  using assms
  by (simp add: getProfileByUserId_ok maybeSingle_def DashboardPage_profile_def
        ProjectDetailPage_profile_def getProfileByUserId_profiles)

theorem profile_read_creates_nothing_witness:
  "fst (getProfileByUserId (uid new_user) sample_world) = Inr None \<and>
   profiles (snd (DashboardPage_profile new_user sample_world)) = profiles sample_world"
proof -
  have a: "\<forall>n. db_fault sample_world n = None" by (simp add: sample_world_def)
  have b: "filter (\<lambda>p. profile_id p = uid new_user) (profiles sample_world) = []"
    by (simp add: sample_world_def new_user_def)
  from profile_read_creates_nothing[OF a b] show ?thesis by simp
qed

text \<open>
  Claim C8 does not hold as stated: after a profile read for an identity without a row,
  there is still no row for it.
\<close>

theorem profile_read_counterexample:
  "''new-1'' \<notin> set (map profile_id (profiles sample_world)) \<and>
   fst (getProfileByUserId ''new-1'' sample_world) = Inr None \<and>
   ''new-1'' \<notin> set (map profile_id (profiles (snd (getProfileByUserId ''new-1'' sample_world))))"
  by (simp add: getProfileByUserId_ok sample_no_fault maybeSingle_def sample_world_fields)

section \<open>Token storage\<close>

lemma store_token_calls:
  "\<exists>t n. calls (snd (POST_store_github_token req w)) =
           calls w @ take n [AuthGetUser t, GithubFetch ''/user'', DbUpsert ''user_tokens'']"
proof (cases "assertSupabaseUser req w")
  case (Pair r w1)
  show ?thesis
  proof (cases r)
    case (Inl e)
    from assertSupabaseUser_calls[OF Pair]
    have "calls w1 = calls w \<or> (\<exists>t. calls w1 = calls w @ [AuthGetUser t])"
      by auto
    then show ?thesis
    proof
      assume "calls w1 = calls w"
      then have "calls (snd (POST_store_github_token req w)) =
           calls w @ take 0 [AuthGetUser [], GithubFetch ''/user'', DbUpsert ''user_tokens'']"
        using Pair Inl by (simp add: POST_store_github_token_def)
      then show ?thesis by blast
    next
      assume "\<exists>t. calls w1 = calls w @ [AuthGetUser t]"
      then obtain t where "calls w1 = calls w @ [AuthGetUser t]" ..
      then have "calls (snd (POST_store_github_token req w)) =
           calls w @ take 1 [AuthGetUser t, GithubFetch ''/user'', DbUpsert ''user_tokens'']"
        using Pair Inl by (simp add: POST_store_github_token_def)
      then show ?thesis by blast
    qed
  next
    case (Inr user)
    from assertSupabaseUser_ok[OF Pair[unfolded Inr]] obtain t
      where w1: "w1 = log_call (AuthGetUser t) w" by blast
    have "calls (snd (POST_store_github_token req w)) =
            calls w @ take 1 [AuthGetUser t, GithubFetch ''/user'', DbUpsert ''user_tokens''] \<or>
          calls (snd (POST_store_github_token req w)) =
            calls w @ take 2 [AuthGetUser t, GithubFetch ''/user'', DbUpsert ''user_tokens''] \<or>
          calls (snd (POST_store_github_token req w)) =
            calls w @ take 3 [AuthGetUser t, GithubFetch ''/user'', DbUpsert ''user_tokens'']"
      using Pair Inr
      by (simp add: POST_store_github_token_def fetchGithubUser_def githubRequest_def w1
            upsert_user_token_def db_call_def Let_def
            split: sum.splits option.splits prod.splits)
    then show ?thesis by blast
  qed
qed

text \<open>
  Claim C2. When the profile fetch that validates the supplied provider token fails,
  POST /api/auth/store-github-token leaves the \<^verbatim>\<open>user_tokens\<close> table exactly as it was,
  answers with \<open>success = False\<close> and makes no upsert call. In every run the calls the
  handler makes are a prefix of: session check, profile fetch, upsert; so the fetch comes
  strictly before any upsert.
\<close>

theorem store_token_failed_validation:
  assumes body: "json_body req = Some j" "payloadSchema_parse j = Inr provider_token"
    and invalid: "fst (fetchGithubUser provider_token w) = Inl e"
  shows "user_tokens (snd (POST_store_github_token req w)) = user_tokens w \<and>
         success (body (fst (POST_store_github_token req w))) = False \<and>
         DbUpsert ''user_tokens'' \<notin> set (drop (length (calls w)) (calls (snd (POST_store_github_token req w)))) \<and>
         (\<forall>req' w'. \<exists>t n. calls (snd (POST_store_github_token req' w')) =
              calls w' @ take n [AuthGetUser t, GithubFetch ''/user'', DbUpsert ''user_tokens''])"
proof -
  have inv: "fst (fetchGithubUser provider_token w') = Inl e" if "github_user w' = github_user w" for w'
    using invalid that by (simp add: fetchGithubUser_def githubRequest_def)
  have "user_tokens (snd (POST_store_github_token req w)) = user_tokens w \<and>
         success (body (fst (POST_store_github_token req w))) = False \<and>
         DbUpsert ''user_tokens'' \<notin> set (drop (length (calls w)) (calls (snd (POST_store_github_token req w))))"
  proof (cases "assertSupabaseUser req w")
    case (Pair r w1)
    show ?thesis
    proof (cases r)
      case (Inl e')
      with Pair assertSupabaseUser_calls[OF Pair] show ?thesis
        by (auto simp: POST_store_github_token_def response_defs)
    next
      case (Inr user)
      from assertSupabaseUser_ok[OF Pair[unfolded Inr]] obtain t
        where w1: "w1 = log_call (AuthGetUser t) w" by blast
      have auth: "assertSupabaseUser req w = (Inr user, w1)"
        using Pair Inr by simp
      have "fst (fetchGithubUser provider_token w1) = Inl e"
        by (rule inv) (simp add: w1)
      then have f: "fetchGithubUser provider_token w1 = (Inl e, log_call (GithubFetch ''/user'') w1)"
        by (simp add: fetchGithubUser_def githubRequest_def)
      have "POST_store_github_token req w = (catch_response e, log_call (GithubFetch ''/user'') w1)"
        by (simp add: POST_store_github_token_def auth request_json_def body f)
      then show ?thesis
        by (simp add: w1 response_defs)
    qed
  qed
  with store_token_calls show ?thesis by blast
qed

theorem store_token_failed_validation_witness:
  "user_tokens (snd (POST_store_github_token
       (request_with ''jwt-dev'' [] (Some (JObject [(''provider_token'', JString ''bad'')])))
       sample_world)) = user_tokens sample_world \<and>
   success (body (fst (POST_store_github_token
       (request_with ''jwt-dev'' [] (Some (JObject [(''provider_token'', JString ''bad'')])))
       sample_world))) = False"
proof -
  have a: "json_body (request_with ''jwt-dev'' [] (Some (JObject [(''provider_token'', JString ''bad'')]))) =
             Some (JObject [(''provider_token'', JString ''bad'')])"
    by (simp add: sample_requests)
  have b: "payloadSchema_parse (JObject [(''provider_token'', JString ''bad'')]) = Inr ''bad''"
    by (simp add: payloadSchema_parse_def field_def optional_string_def)
  have c: "fst (fetchGithubUser ''bad'' sample_world) = Inl (new_Error ''Bad credentials'')"
    by (simp add: fetchGithubUser_def githubRequest_def github_reply_def response_ok_def
          sample_world_fields)
  from store_token_failed_validation[OF a b c] show ?thesis by simp
qed

section \<open>Token vault lookup\<close>

lemma bad_gateway_sessions:
  "assertSupabaseUser (request_with ''jwt-dev'' ps b) bad_gateway_world =
     (Inr dev_user, log_call (AuthGetUser ''jwt-dev'') bad_gateway_world)"
  "assertSupabaseUser (request_with ''jwt-exp'' ps b) bad_gateway_world =
     (Inr expert_user, log_call (AuthGetUser ''jwt-exp'') bad_gateway_world)"
  by (simp_all add: assertSupabaseUser_def sample_tokens bad_gateway_world_def sample_world_def)

lemma bad_gateway_fields:
  "user_tokens bad_gateway_world = user_tokens sample_world"
  "db_fault bad_gateway_world n = None"
  "github_graphql bad_gateway_world t = FetchResponse 502 ''GitHub token not found for user'' None"
  by (simp_all add: bad_gateway_world_def sample_world_fields)

text \<open>
  Claim C3, as amended. For a user without a stored third-party token (the datastore
  answering) the vault lookup fails with a plain \<^verbatim>\<open>Error\<close> of message
  \<^verbatim>\<open>GitHub token not found for user\<close> and without \<^verbatim>\<open>status\<close>, which the handler
  surfaces as the generic status 500 with that message. This differs from the
  \<^verbatim>\<open>AuthError\<close> and 401 of a bearer token the identity provider rejects, but the error
  has no class or status of its own: every failure of the vault lookup is a plain
  \<^verbatim>\<open>Error\<close> without \<^verbatim>\<open>status\<close>, surfaced as 500.
\<close>

theorem token_not_linked_is_generic_500:
  assumes auth: "assertSupabaseUser req w = (Inr user, w1)"
    and nofault: "\<forall>n. db_fault w n = None"
    and unlinked: "filter (\<lambda>t. tok_user_id t = uid user) (user_tokens w) = []"
  shows "fst (getGithubTokenForUser (uid user) w) =
           Inl \<lparr>err_class = PlainError, err_message = ''GitHub token not found for user'',
                err_status = None\<rparr> \<and>
         http_status (fst (GET_contributions req w)) = 500 \<and>
         body (fst (GET_contributions req w)) =
           \<lparr>success = False, data = None, error = Some ''GitHub token not found for user'',
            status_code = 500\<rparr> \<and>
         (\<forall>u w' e w''. getGithubTokenForUser u w' = (Inl e, w'') \<longrightarrow>
            err_class e = PlainError \<and> err_status e = None \<and> caught_status e = 500) \<and>
         (\<forall>req' w' t e w''.
            getTokenFromRequest req' = Inr (Some t) \<and> assertSupabaseUser req' w' = (Inl e, w'') \<longrightarrow>
            err_class e = AuthError \<and> caught_status e = 401)"
proof -
  from assertSupabaseUser_ok[OF auth] obtain t where w1: "w1 = log_call (AuthGetUser t) w" by blast
  have a: "getGithubTokenForUser (uid user) w' =
          (Inl (new_Error ''GitHub token not found for user''), log_call (DbSelect ''user_tokens'') w')"
    if "user_tokens w' = user_tokens w" "db_fault w' = db_fault w" for w'
    using nofault unlinked that
    by (simp add: getGithubTokenForUser_def select_maybeSingle_ok maybeSingle_def)
  have b: "\<forall>req' w' t e w''.
            getTokenFromRequest req' = Inr (Some t) \<and> assertSupabaseUser req' w' = (Inl e, w'') \<longrightarrow>
            err_class e = AuthError \<and> caught_status e = 401"
    using assertSupabaseUser_rejected by (auto simp: caught_status_def)
  have g: "\<forall>u w' e w''. getGithubTokenForUser u w' = (Inl e, w'') \<longrightarrow>
            err_class e = PlainError \<and> err_status e = None \<and> caught_status e = 500"
    using getGithubTokenForUser_plain by (auto simp: caught_status_def)
  have c: "getGithubTokenForUser (uid user) w1 =
          (Inl (new_Error ''GitHub token not found for user''), log_call (DbSelect ''user_tokens'') w1)"
    by (rule a) (simp_all add: w1)
  have "fst (getGithubTokenForUser (uid user) w) =
           Inl \<lparr>err_class = PlainError, err_message = ''GitHub token not found for user'',
                err_status = None\<rparr> \<and>
         http_status (fst (GET_contributions req w)) = 500 \<and>
         body (fst (GET_contributions req w)) =
           \<lparr>success = False, data = None, error = Some ''GitHub token not found for user'',
            status_code = 500\<rparr>"
    by (simp add: a GET_contributions_def auth c response_defs new_Error_def)
  with g b show ?thesis by blast
qed

theorem token_not_linked_witness:
  "http_status (fst (GET_contributions (request_with ''jwt-exp'' [] None) sample_world)) = 500 \<and>
   error (body (fst (GET_contributions (request_with ''jwt-exp'' [] None) sample_world))) =
     Some ''GitHub token not found for user'' \<and>
   caught_status (projl (fst (assertSupabaseUser (request_with ''expired'' [] None) sample_world))) = 401"
proof -
  have a: "assertSupabaseUser (request_with ''jwt-exp'' [] None) sample_world =
        (Inr expert_user, log_call (AuthGetUser ''jwt-exp'') sample_world)"
    by (rule sample_sessions)
  have b: "filter (\<lambda>t. tok_user_id t = uid expert_user) (user_tokens sample_world) = []"
    by (simp add: sample_world_fields sample_users)
  have t: "getTokenFromRequest (request_with ''expired'' [] None) = Inr (Some ''expired'')"
    by (simp add: getTokenFromRequest_def extractBearerToken_def request_with_def toLowerCase_Bearer)
  have c: "assertSupabaseUser (request_with ''expired'' [] None) sample_world =
             (Inl (new_AuthError ''invalid JWT'' 401), log_call (AuthGetUser ''expired'') sample_world)"
    by (simp add: assertSupabaseUser_def t sample_world_def)
  from token_not_linked_is_generic_500[OF a sample_no_fault b]
  have "http_status (fst (GET_contributions (request_with ''jwt-exp'' [] None) sample_world)) = 500"
    and "body (fst (GET_contributions (request_with ''jwt-exp'' [] None) sample_world)) =
           \<lparr>success = False, data = None, error = Some ''GitHub token not found for user'',
            status_code = 500\<rparr>"
    and d: "\<forall>req' w' t e w''.
            getTokenFromRequest req' = Inr (Some t) \<and> assertSupabaseUser req' w' = (Inl e, w'') \<longrightarrow>
            err_class e = AuthError \<and> caught_status e = 401"
    by blast+
  moreover from d t c have "caught_status (new_AuthError ''invalid JWT'' 401) = 401" by blast
  ultimately show ?thesis by (simp add: c)
qed

text \<open>
  Claim C3 does not hold as stated: the handler does not surface a distinct error for
  the caller without a stored token. With the GraphQL endpoint answering 502, the caller
  whose token is stored gets the very response the caller without one gets, status and
  body alike.
\<close>

theorem token_not_linked_counterexample:
  "''exp-1'' \<notin> set (map tok_user_id (user_tokens bad_gateway_world)) \<and>
   fst (getGithubTokenForUser ''dev-1'' bad_gateway_world) = Inr ''gho_dev'' \<and>
   fst (GET_contributions (request_with ''jwt-exp'' [] None) bad_gateway_world) =
     fst (GET_contributions (request_with ''jwt-dev'' [] None) bad_gateway_world) \<and>
   http_status (fst (GET_contributions (request_with ''jwt-exp'' [] None) bad_gateway_world)) = 500"
  by (simp add: GET_contributions_def bad_gateway_sessions getGithubTokenForUser_def
        select_maybeSingle_def db_call_def maybeSingle_def bad_gateway_fields sample_world_fields
        sample_users fetchGithubContributions_def github_reply_def response_ok_def
        response_defs new_Error_def)

section \<open>Import validation\<close>

text \<open>The regular expression accepts exactly the names of two non-empty slash-free segments.\<close>

lemma owner_repo_regex_iff:
  "owner_repo_regex s \<longleftrightarrow>
     (\<exists>a b. s = a @ ''/'' @ b \<and> a \<noteq> [] \<and> b \<noteq> [] \<and> CHR ''/'' \<notin> set a \<and> CHR ''/'' \<notin> set b)"
proof
  assume "owner_repo_regex s"
  then have a: "takeWhile (\<lambda>c. c \<noteq> CHR ''/'') s \<noteq> []"
    and r: "dropWhile (\<lambda>c. c \<noteq> CHR ''/'') s \<noteq> []"
    and t: "tl (dropWhile (\<lambda>c. c \<noteq> CHR ''/'') s) \<noteq> []"
    and n: "CHR ''/'' \<notin> set (tl (dropWhile (\<lambda>c. c \<noteq> CHR ''/'') s))"
    by (simp_all add: owner_repo_regex_def Let_def)
  from r have h: "hd (dropWhile (\<lambda>c. c \<noteq> CHR ''/'') s) = CHR ''/''"
    using hd_dropWhile[of "\<lambda>c. c \<noteq> CHR ''/''" s] by simp
  have "s = takeWhile (\<lambda>c. c \<noteq> CHR ''/'') s @ dropWhile (\<lambda>c. c \<noteq> CHR ''/'') s" by simp
  also have "dropWhile (\<lambda>c. c \<noteq> CHR ''/'') s = ''/'' @ tl (dropWhile (\<lambda>c. c \<noteq> CHR ''/'') s)"
    using r h by (cases "dropWhile (\<lambda>c. c \<noteq> CHR ''/'') s") auto
  finally have "s = takeWhile (\<lambda>c. c \<noteq> CHR ''/'') s @ ''/'' @ tl (dropWhile (\<lambda>c. c \<noteq> CHR ''/'') s)" .
  moreover have "CHR ''/'' \<notin> set (takeWhile (\<lambda>c. c \<noteq> CHR ''/'') s)"
    using set_takeWhileD by fastforce
  ultimately show "\<exists>a b. s = a @ ''/'' @ b \<and> a \<noteq> [] \<and> b \<noteq> [] \<and> CHR ''/'' \<notin> set a \<and> CHR ''/'' \<notin> set b"
    using a t n by blast
next
  assume "\<exists>a b. s = a @ ''/'' @ b \<and> a \<noteq> [] \<and> b \<noteq> [] \<and> CHR ''/'' \<notin> set a \<and> CHR ''/'' \<notin> set b"
  then obtain a b where s: "s = a @ ''/'' @ b" and ab: "a \<noteq> []" "b \<noteq> []"
    "CHR ''/'' \<notin> set a" "CHR ''/'' \<notin> set b" by blast
  have "takeWhile (\<lambda>c. c \<noteq> CHR ''/'') s = a"
    unfolding s using ab(3) by (induction a) auto
  moreover have "dropWhile (\<lambda>c. c \<noteq> CHR ''/'') s = ''/'' @ b"
    unfolding s using ab(3) by (induction a) auto
  ultimately show "owner_repo_regex s"
    using ab by (simp add: owner_repo_regex_def)
qed

text \<open>
  Claim C4, as amended. For an authenticated caller of POST /api/projects whose
  \<^verbatim>\<open>repository_full_name\<close> does not match the two-segment pattern, the request fails with
  status 500 (the schema's error has no \<^verbatim>\<open>status\<close> property), and it fails right after
  the session check: no token-vault lookup and no third-party call is made, and the
  projects table is unchanged.
\<close>

theorem malformed_name_fails_before_calls:
  assumes auth: "assertSupabaseUser req w = (Inr user, w1)"
    and body: "json_body req = Some (JObject kvs)"
              "field kvs ''repository_full_name'' = Some (JString s)"
    and malformed: "\<not> owner_repo_regex s"
  shows "http_status (fst (POST_projects req w)) = 500 \<and>
         success (body (fst (POST_projects req w))) = False \<and>
         status_code (body (fst (POST_projects req w))) = 500 \<and>
         snd (POST_projects req w) = w1 \<and>
         (\<exists>t. calls (snd (POST_projects req w)) = calls w @ [AuthGetUser t]) \<and>
         projects (snd (POST_projects req w)) = projects w"
proof -
  from assertSupabaseUser_ok[OF auth] obtain t where w1: "w1 = log_call (AuthGetUser t) w" by blast
  have "\<exists>m. importSchema_parse (JObject kvs) = Inl (new_ZodError m)"
    using body(2) malformed by (auto simp: importSchema_parse_def)
  then obtain m where "importSchema_parse (JObject kvs) = Inl (new_ZodError m)" ..
  then have "POST_projects req w = (catch_response (new_ZodError m), w1)"
    by (simp add: POST_projects_def auth request_json_def body(1))
  then show ?thesis
    by (simp add: response_defs new_ZodError_def w1)
qed

theorem malformed_name_witness:
  "http_status (fst (POST_projects (import_request ''jwt-dev'' ''octocat'') sample_world)) = 500 \<and>
   calls (snd (POST_projects (import_request ''jwt-dev'' ''octocat'') sample_world)) =
     [AuthGetUser ''jwt-dev'']"
proof -
  have a: "assertSupabaseUser (import_request ''jwt-dev'' ''octocat'') sample_world =
        (Inr dev_user, log_call (AuthGetUser ''jwt-dev'') sample_world)"
    by (rule sample_import_sessions)
  have b: "json_body (import_request ''jwt-dev'' ''octocat'') =
             Some (JObject [(''repository_full_name'', JString ''octocat'')])"
    by (simp add: sample_requests)
  have c: "field [(''repository_full_name'', JString ''octocat'')] ''repository_full_name'' =
             Some (JString ''octocat'')"
    by (simp add: field_def)
  have d: "\<not> owner_repo_regex ''octocat''" by (simp add: owner_repo_regex_def)
  from malformed_name_fails_before_calls[OF a b c d]
  have "http_status (fst (POST_projects (import_request ''jwt-dev'' ''octocat'') sample_world)) = 500"
    and "snd (POST_projects (import_request ''jwt-dev'' ''octocat'') sample_world) =
           log_call (AuthGetUser ''jwt-dev'') sample_world"
    by simp_all
  then show ?thesis by (simp add: sample_world_fields)
qed

text \<open>
  Claim C4 does not hold as stated: the status of the failure is 500, not a 4xx status.
\<close>

theorem malformed_name_counterexample:
  "\<not> owner_repo_regex ''octocat'' \<and>
   http_status (fst (POST_projects (import_request ''jwt-dev'' ''octocat'') sample_world)) = 500"
  by (simp add: POST_projects_def sample_import_sessions request_json_def sample_requests
        importSchema_parse_def field_def owner_repo_regex_def response_defs new_ZodError_def)

section \<open>Project-scoped endpoints\<close>

lemma fail_response_fields:
  "http_status (fail_response st m :: payload http_response) = st"
  "success (body (fail_response st m)) = False"
  "status_code (body (fail_response st m)) = st"
  "data (body (fail_response st m)) = None"
  "error (body (fail_response st m)) = Some (if m = [] then ''Unexpected error'' else m)"
  by (simp_all add: response_defs)

lemma ok_response_fields:
  "http_status (ok_response d) = 200"
  "success (body (ok_response d)) = True"
  "status_code (body (ok_response d)) = 200"
  "data (body (ok_response d)) = Some d"
  by (simp_all add: response_defs)

lemma catch_response_fields:
  "http_status (catch_response e :: payload http_response) = caught_status e"
  "success (body (catch_response e :: payload http_response)) = False"
  "status_code (body (catch_response e :: payload http_response)) = caught_status e"
  by (simp_all add: response_defs)

lemma ensureAccess_documentation_ok:
  assumes "\<forall>n. db_fault w n = None"
  shows "ensureAccess_documentation pid userId w =
     (case maybeSingle (filter (\<lambda>p. profile_id p = userId) (profiles w)) of
        Inl e \<Rightarrow> (Inl (new_Error (pg_message e)), log_call (DbSelect ''profiles'') w)
      | Inr prof \<Rightarrow>
          (case maybeSingle (project_refs pid w) of
             Inl e \<Rightarrow> (Inl (new_Error (pg_message e)),
                        log_call (DbSelect ''projects'') (log_call (DbSelect ''profiles'') w))
           | Inr None \<Rightarrow>
               (Inr \<lparr>project = None, profile = prof, isOwner = False, isExpert = is_expert prof\<rparr>,
                log_call (DbSelect ''projects'') (log_call (DbSelect ''profiles'') w))
           | Inr (Some d) \<Rightarrow>
               (if ref_user_id d \<noteq> Some userId \<and> \<not> is_expert prof
                then Inl (new_Error_with_status ''Not authorized'' 403)
                else Inr \<lparr>project = Some d, profile = prof,
                          isOwner = (ref_user_id d = Some userId), isExpert = is_expert prof\<rparr>,
                log_call (DbSelect ''projects'') (log_call (DbSelect ''profiles'') w))))"
  using assms
  by (simp add: ensureAccess_documentation_def getProfileByUserId_ok select_maybeSingle_ok
        project_refs_def Let_def split: sum.splits option.splits)

lemma ensureAccess_attachments_ok:
  assumes "\<forall>n. db_fault w n = None"
  shows "ensureAccess_attachments pid userId w =
     (case maybeSingle (filter (\<lambda>p. profile_id p = userId) (profiles w)) of
        Inl e \<Rightarrow> (Inl (new_Error (pg_message e)), log_call (DbSelect ''profiles'') w)
      | Inr prof \<Rightarrow>
          (case maybeSingle (project_refs pid w) of
             Inl e \<Rightarrow> (Inl (new_Error (pg_message e)),
                        log_call (DbSelect ''projects'') (log_call (DbSelect ''profiles'') w))
           | Inr None \<Rightarrow>
               (Inr (None, prof),
                log_call (DbSelect ''projects'') (log_call (DbSelect ''profiles'') w))
           | Inr (Some d) \<Rightarrow>
               (if ref_user_id d \<noteq> Some userId \<and> \<not> is_expert prof
                then Inl (new_Error_with_status ''Not authorized'' 403)
                else Inr (Some d, prof),
                log_call (DbSelect ''projects'') (log_call (DbSelect ''profiles'') w))))"
  using assms
  by (simp add: ensureAccess_attachments_def getProfileByUserId_ok select_maybeSingle_ok
        project_refs_def Let_def split: sum.splits option.splits)

lemma maybeSingle_short:
  "length rows \<le> 1 \<Longrightarrow> maybeSingle rows = Inr (case rows of [] \<Rightarrow> None | r # _ \<Rightarrow> Some r)"
  by (cases rows; cases "tl rows") (auto simp: maybeSingle_def)

lemma ensureAccess_documentation_frame:
  "project_documentation (snd (ensureAccess_documentation pid userId w)) = project_documentation w"
  by (simp add: ensureAccess_documentation_def getProfileByUserId_def select_maybeSingle_def
        db_call_def Let_def split: sum.splits option.splits prod.splits)

lemma ensureAccess_documentation_owner:
  assumes "ensureAccess_documentation pid userId w = (Inr acc, w')" "isOwner acc"
  shows "\<exists>p\<in>set (projects w). row_id (project_record.more p) = pid \<and> user_id p = Some userId"
proof -
  have m: "maybeSingle rows = Inr (Some d) \<Longrightarrow> d \<in> set rows" for rows :: "project_ref list" and d
    by (cases rows; cases "tl rows") (auto simp: maybeSingle_def)
  from assms obtain d where "maybeSingle (project_refs pid w) = Inr (Some d)" "ref_user_id d = Some userId"
    by (auto simp: ensureAccess_documentation_def getProfileByUserId_def select_maybeSingle_def
          db_call_def project_refs_def Let_def
          split: sum.splits option.splits prod.splits if_splits)
  with m[of "project_refs pid w" d] show ?thesis
    by (auto simp: project_refs_def)
qed

lemma PUT_documentation_owner_only:
  assumes "success (body (fst (PUT_documentation pid req w))) \<or>
           project_documentation (snd (PUT_documentation pid req w)) \<noteq> project_documentation w"
  shows "\<exists>user w1. assertSupabaseUser req w = (Inr user, w1) \<and>
           (\<exists>p\<in>set (projects w). row_id (project_record.more p) = pid \<and> user_id p = Some (uid user))"
proof (cases "assertSupabaseUser req w")
  case (Pair r w1)
  show ?thesis
  proof (cases r)
    case (Inl e)
    with Pair assms assertSupabaseUser_calls[OF Pair] show ?thesis
      by (auto simp: PUT_documentation_def catch_response_fields)
  next
    case (Inr user)
    from assertSupabaseUser_ok[OF Pair[unfolded Inr]] obtain t
      where w1: "w1 = log_call (AuthGetUser t) w" by blast
    have auth: "assertSupabaseUser req w = (Inr user, w1)" using Pair Inr by simp
    obtain r2 w2 where ea: "ensureAccess_documentation pid (uid user) w1 = (r2, w2)"
      by (cases "ensureAccess_documentation pid (uid user) w1") blast
    from ensureAccess_documentation_frame[of pid "uid user" w1] ea
    have docs2: "project_documentation w2 = project_documentation w"
      by (simp add: w1)
    show ?thesis
    proof (cases r2)
      case (Inl e)
      with assms show ?thesis
        by (simp add: PUT_documentation_def auth ea catch_response_fields docs2)
    next
      case (Inr acc)
      show ?thesis
      proof (cases "isOwner acc")
        case True
        from ensureAccess_documentation_owner[OF ea[unfolded Inr] True]
        show ?thesis using auth by (simp add: w1)
      next
        case False
        with assms show ?thesis
          by (simp add: PUT_documentation_def auth ea Inr fail_response_fields docs2
                split: option.splits)
      qed
    qed
  qed
qed

text \<open>
  Claim C1. An authenticated caller whose profile role is expert and who does not own
  the existing project gets 403 with \<open>success = False\<close> on PUT
  /api/projects/{id}/documentation, and the documentation table is unchanged, while GET
  on the same route answers 200 (the datastore answering its queries). For every request
  whatsoever, a PUT that succeeds or changes the documentation table comes from the
  caller whose id is the project's owning user id.
\<close>

theorem documentation_write_owner_only:
  assumes auth: "assertSupabaseUser req w = (Inr user, w1)"
    and nofault: "\<forall>n. db_fault w n = None"
    and prof: "filter (\<lambda>p. profile_id p = uid user) (profiles w) = [prof]" "role prof = Some expert"
    and proj: "filter (\<lambda>p. row_id (project_record.more p) = pid) (projects w) = [proj]"
              "user_id proj \<noteq> Some (uid user)"
  shows "http_status (fst (PUT_documentation pid req w)) = 403 \<and>
         success (body (fst (PUT_documentation pid req w))) = False \<and>
         status_code (body (fst (PUT_documentation pid req w))) = 403 \<and>
         project_documentation (snd (PUT_documentation pid req w)) = project_documentation w \<and>
         http_status (fst (GET_documentation pid req w)) = 200 \<and>
         success (body (fst (GET_documentation pid req w))) = True \<and>
         (\<forall>req' w'.
            success (body (fst (PUT_documentation pid req' w'))) \<or>
            project_documentation (snd (PUT_documentation pid req' w')) \<noteq> project_documentation w' \<longrightarrow>
            (\<exists>user' w1'. assertSupabaseUser req' w' = (Inr user', w1') \<and>
               (\<exists>p\<in>set (projects w'). row_id (project_record.more p) = pid \<and>
                                        user_id p = Some (uid user'))))"
proof -
  from assertSupabaseUser_ok[OF auth] obtain t where w1: "w1 = log_call (AuthGetUser t) w" by blast
  have nf1: "\<forall>n. db_fault w1 n = None" using nofault by (simp add: w1)
  have tabs: "profiles w1 = profiles w" "projects w1 = projects w"
    "project_documentation w1 = project_documentation w"
    by (simp_all add: w1)
  let ?w2 = "log_call (DbSelect ''projects'') (log_call (DbSelect ''profiles'') w1)"
  have ea: "ensureAccess_documentation pid (uid user) w1 =
              (Inr \<lparr>project = Some \<lparr>ref_id = row_id (project_record.more proj), ref_user_id = user_id proj\<rparr>,
                    profile = Some prof, isOwner = False, isExpert = True\<rparr>, ?w2)"
    using prof proj tabs
    by (simp add: ensureAccess_documentation_ok[OF nf1] maybeSingle_def project_refs_def
          is_expert_def)
  have put: "PUT_documentation pid req w =
               (fail_response 403 ''Only project owners can update documentation'', ?w2)"
    by (simp add: PUT_documentation_def auth ea)
  have nf2: "\<forall>n. db_fault ?w2 n = None" using nofault by (simp add: w1)
  have get: "http_status (fst (GET_documentation pid req w)) = 200 \<and>
             success (body (fst (GET_documentation pid req w))) = True"
    by (simp add: GET_documentation_def auth ea select_maybeSingle_ok[OF nf2] ok_response_fields
          maybeSingle_def isTableMissing_def split: sum.splits list.splits)
  show ?thesis
    using get PUT_documentation_owner_only
    by (simp add: put fail_response_fields tabs)
qed

theorem documentation_write_owner_only_witness:
  "http_status (fst (PUT_documentation ''p1'' (request_with ''jwt-exp'' [] (Some (JObject []))) sample_world)) = 403 \<and>
   success (body (fst (PUT_documentation ''p1'' (request_with ''jwt-exp'' [] (Some (JObject []))) sample_world))) = False \<and>
   http_status (fst (GET_documentation ''p1'' (request_with ''jwt-exp'' [] (Some (JObject []))) sample_world)) = 200"
proof -
  have a: "assertSupabaseUser (request_with ''jwt-exp'' [] (Some (JObject []))) sample_world =
        (Inr expert_user, log_call (AuthGetUser ''jwt-exp'') sample_world)"
    by (rule sample_sessions)
  have b: "filter (\<lambda>p. profile_id p = uid expert_user) (profiles sample_world) =
             [\<lparr>profile_id = ''exp-1'', username = Some ''hubot'', full_name = None,
               role = Some expert, avatar_url = None\<rparr>]"
    by (simp add: sample_world_fields sample_users)
  have c: "role \<lparr>profile_id = ''exp-1'', username = Some ''hubot'', full_name = None,
               role = Some expert, avatar_url = None\<rparr> = Some expert"
    by simp
  have d: "filter (\<lambda>p. row_id (project_record.more p) = ''p1'') (projects sample_world) = [spoon_project]"
    by (simp add: sample_world_fields spoon_project_def)
  have e: "user_id spoon_project \<noteq> Some (uid expert_user)"
    by (simp add: spoon_project_def sample_users)
  from documentation_write_owner_only[OF a sample_no_fault b c d e] show ?thesis by simp
qed

lemma schema_errors_are_500:
  "request_json req = Inl e \<Longrightarrow> caught_status e = 500"
  "metadata_updateSchema_parse j = Inl e \<Longrightarrow> caught_status e = 500"
  by (auto simp: request_json_def metadata_updateSchema_parse_def caught_status_def error_defs
        split: option.splits json.splits if_splits)

text \<open>
  Claim C10, as amended. For an authenticated caller and a project id without a Project
  row (the datastore answering its queries), metadata GET, documentation GET and PUT and
  attachments GET and POST answer 404 \<^verbatim>\<open>Project not found\<close> with \<open>success = False\<close>,
  whatever the caller's role. Metadata PATCH parses its body before it looks the project
  up: it answers the same 404 when the body passes the schema and 500 when it does not.
  No endpoint answers 403.
\<close>

theorem missing_project_is_404:
  assumes auth: "assertSupabaseUser req w = (Inr user, w1)"
    and nofault: "\<forall>n. db_fault w n = None"
    and prof: "length (filter (\<lambda>p. profile_id p = uid user) (profiles w)) \<le> 1"
    and absent: "filter (\<lambda>p. row_id (project_record.more p) = pid) (projects w) = []"
  shows "fst (GET_project pid req w) = fail_response 404 ''Project not found'' \<and>
         fst (GET_documentation pid req w) = fail_response 404 ''Project not found'' \<and>
         fst (PUT_documentation pid req w) = fail_response 404 ''Project not found'' \<and>
         fst (GET_attachments pid req w) = fail_response 404 ''Project not found'' \<and>
         fst (POST_attachments pid req w) = fail_response 404 ''Project not found'' \<and>
         fst (PATCH_project pid req w) =
           (case request_json req of
              Inl e \<Rightarrow> catch_response e
            | Inr j \<Rightarrow> (case metadata_updateSchema_parse j of
                          Inl e \<Rightarrow> catch_response e
                        | Inr u \<Rightarrow> fail_response 404 ''Project not found'')) \<and>
         (http_status (fst (PATCH_project pid req w)) = 404 \<or>
          http_status (fst (PATCH_project pid req w)) = 500) \<and>
         fail_response 404 ''Project not found'' =
           \<lparr>http_status = 404,
            body = \<lparr>success = False, data = None, error = Some ''Project not found'',
                    status_code = 404\<rparr>\<rparr>"
proof -
  from assertSupabaseUser_ok[OF auth] obtain t where w1: "w1 = log_call (AuthGetUser t) w" by blast
  have nf1: "\<forall>n. db_fault w1 n = None" using nofault by (simp add: w1)
  have tabs: "profiles w1 = profiles w" "projects w1 = projects w" by (simp_all add: w1)
  note ms = maybeSingle_short[OF prof]
  have gp: "getProfileByUserId (uid user) w1 =
              (Inr (case filter (\<lambda>p. profile_id p = uid user) (profiles w) of [] \<Rightarrow> None | r # _ \<Rightarrow> Some r),
               log_call (DbSelect ''profiles'') w1)"
    by (simp add: getProfileByUserId_ok[OF nf1] tabs ms)
  have nf2: "\<forall>n. db_fault (log_call (DbSelect ''profiles'') w1) n = None"
    using nf1 by simp
  have mp: "maybeSingle (project_refs pid w1) = Inr None"
    using absent by (simp add: project_refs_def tabs maybeSingle_def)
  have ead: "\<exists>acc w2. ensureAccess_documentation pid (uid user) w1 = (Inr acc, w2) \<and> project acc = None"
    by (simp add: ensureAccess_documentation_ok[OF nf1] tabs ms mp)
  have eaa: "\<exists>pr w2. ensureAccess_attachments pid (uid user) w1 = (Inr (None, pr), w2)"
    by (simp add: ensureAccess_attachments_ok[OF nf1] tabs ms mp)
  have 1: "fst (GET_project pid req w) = fail_response 404 ''Project not found''"
    using absent
    by (simp add: GET_project_def auth gp select_maybeSingle_ok[OF nf2] tabs maybeSingle_def)
  have 2: "fst (GET_documentation pid req w) = fail_response 404 ''Project not found''"
    using ead by (auto simp: GET_documentation_def auth)
  have 3: "fst (PUT_documentation pid req w) = fail_response 404 ''Project not found''"
    using ead by (auto simp: PUT_documentation_def auth)
  have 4: "fst (GET_attachments pid req w) = fail_response 404 ''Project not found''"
    using eaa by (auto simp: GET_attachments_def auth)
  have 5: "fst (POST_attachments pid req w) = fail_response 404 ''Project not found''"
    using eaa by (auto simp: POST_attachments_def auth)
  have 6: "fst (PATCH_project pid req w) =
           (case request_json req of
              Inl e \<Rightarrow> catch_response e
            | Inr j \<Rightarrow> (case metadata_updateSchema_parse j of
                          Inl e \<Rightarrow> catch_response e
                        | Inr u \<Rightarrow> fail_response 404 ''Project not found''))"
    using absent
    by (simp add: PATCH_project_def auth gp select_maybeSingle_ok[OF nf2] tabs maybeSingle_def
          split: sum.splits)
  have 7: "http_status (fst (PATCH_project pid req w)) = 404 \<or>
          http_status (fst (PATCH_project pid req w)) = 500"
    unfolding 6
    by (auto simp: catch_response_fields fail_response_fields schema_errors_are_500
          split: sum.splits)
  have 8: "fail_response 404 ''Project not found'' =
           (\<lparr>http_status = 404,
            body = \<lparr>success = False, data = None, error = Some ''Project not found'',
                    status_code = 404\<rparr>\<rparr> :: payload http_response)"
    by (simp add: response_defs)
  from 1 2 3 4 5 6 7 8 show ?thesis by blast
qed

theorem missing_project_is_404_witness:
  "fst (GET_project ''nope'' (request_with ''jwt-new'' [] (Some (JObject []))) sample_world) =
     fail_response 404 ''Project not found'' \<and>
   fst (PUT_documentation ''nope'' (request_with ''jwt-new'' [] (Some (JObject []))) sample_world) =
     fail_response 404 ''Project not found'' \<and>
   fst (POST_attachments ''nope'' (request_with ''jwt-new'' [] (Some (JObject []))) sample_world) =
     fail_response 404 ''Project not found'' \<and>
   fst (PATCH_project ''nope'' (request_with ''jwt-new'' [] (Some (JObject []))) sample_world) =
     fail_response 404 ''Project not found''"
proof -
  have a: "assertSupabaseUser (request_with ''jwt-new'' [] (Some (JObject []))) sample_world =
        (Inr new_user, log_call (AuthGetUser ''jwt-new'') sample_world)"
    by (rule sample_sessions)
  have b: "length (filter (\<lambda>p. profile_id p = uid new_user) (profiles sample_world)) \<le> 1"
    by (simp add: sample_world_fields sample_users)
  have c: "filter (\<lambda>p. row_id (project_record.more p) = ''nope'') (projects sample_world) = []"
    by (simp add: sample_world_fields spoon_project_def)
  have d: "request_json (request_with ''jwt-new'' [] (Some (JObject []))) = Inr (JObject [])"
    by (simp add: request_json_def sample_requests)
  have e: "metadata_updateSchema_parse (JObject []) =
             Inr \<lparr>upd_notes = None, upd_tags = None, upd_status = None\<rparr>"
    by (simp add: metadata_updateSchema_parse_def field_def)
  from missing_project_is_404[OF a sample_no_fault b c] show ?thesis
    by (simp add: d e)
qed

text \<open>
  Claim C10 does not hold as stated for PATCH: with a body the schema rejects, the
  answer for a project that does not exist is 500, not 404.
\<close>

theorem missing_project_patch_counterexample:
  "''nope'' \<notin> set (map (row_id \<circ> project_record.more) (projects sample_world)) \<and>
   http_status (fst (PATCH_project ''nope''
       (request_with ''jwt-dev'' [] (Some (JObject [(''status'', JString ''archived'')])))
       sample_world)) = 500"
  by (simp add: PATCH_project_def sample_sessions getProfileByUserId_ok sample_no_fault
        maybeSingle_def request_json_def sample_requests metadata_updateSchema_parse_def
        field_def response_defs new_ZodError_def sample_world_fields sample_users
        spoon_project_def)

section \<open>Import and re-import\<close>

lemma upserted_row_fields [simp]:
  "user_id (upserted_row r c) = user_id r"
  "github_repo_id (upserted_row r c) = github_repo_id r"
  "name (upserted_row r c) = name r"
  "description (upserted_row r c) = description r"
  "language (upserted_row r c) = language r"
  "stars (upserted_row r c) = stars r"
  "forks (upserted_row r c) = forks r"
  "pushed_at (upserted_row r c) = pushed_at r"
  "created_at_github (upserted_row r c) = created_at_github r"
  "updated_at_github (upserted_row r c) = updated_at_github r"
  "last_synced_at (upserted_row r c) = last_synced_at r"
  "row_id (project_record.more (upserted_row r c)) = row_id c"
  "notes_col (project_record.more (upserted_row r c)) = notes_col c"
  "tags (project_record.more (upserted_row r c)) = tags c"
  "status (project_record.more (upserted_row r c)) = status c"
  "updated_at (project_record.more (upserted_row r c)) = updated_at c"
  "visibility (project_record.more (upserted_row r c)) =
     (case visibility_prop (project_record.more r) of
        Undefined \<Rightarrow> visibility c
      | Defined v \<Rightarrow> v)"
  "owner_username (project_record.more (upserted_row r c)) =
     (case owner_username_prop (project_record.more r) of
        Undefined \<Rightarrow> owner_username c
      | Defined l \<Rightarrow> Some l)"
  by (simp_all add: upserted_row_def write_optional_def project_record.defs)

lemma upsert_rows_distinct:
  assumes "distinct (map key rows)" "\<And>r. key r = key new \<Longrightarrow> key (merge r) = key new"
  shows "distinct (map key (upsert_rows key merge new rows))"
proof -
  have "map key (map (\<lambda>r. if key r = key new then merge r else r) rows) = map key rows"
    using assms(2) by (induction rows) auto
  then have "distinct (map key (map (\<lambda>r. if key r = key new then merge r else r) rows))"
    using assms(1) by (simp only:)
  then show ?thesis
    using assms(1) by (cases "key new \<in> key ` set rows") (simp_all add: upsert_rows_def del: map_map)
qed

lemma upsert_rows_length:
  "key new \<in> key ` set rows \<Longrightarrow> length (upsert_rows key merge new rows) = length rows"
  by (simp add: upsert_rows_def)

lemma upsert_rows_filter:
  assumes "key new \<in> key ` set rows" "\<And>r. key r = key new \<Longrightarrow> key (merge r) = key new"
  shows "filter (\<lambda>r. key r = key new) (upsert_rows key merge new rows) =
           map merge (filter (\<lambda>r. key r = key new) rows)"
proof -
  have "filter (\<lambda>r. key r = key new) (map (\<lambda>r. if key r = key new then merge r else r) rows) =
           map merge (filter (\<lambda>r. key r = key new) rows)"
    using assms(2) by (induction rows) auto
  with assms(1) show ?thesis by (simp add: upsert_rows_def)
qed

lemma filter_singleton_mem:
  "filter P xs = [x] \<Longrightarrow> x \<in> set xs \<and> P x"
proof -
  assume "filter P xs = [x]"
  then have "x \<in> set (filter P xs)" by simp
  then show ?thesis by simp
qed

lemma github_reply_error: "github_reply fb reply = Inl e \<Longrightarrow> caught_status e = 500"
  by (auto simp: github_reply_def caught_status_def error_defs
        split: fetch_reply.splits if_splits option.splits)

lemma getGithubTokenForUser_error:
  "getGithubTokenForUser u w = (Inl e, w') \<Longrightarrow> caught_status e = 500"
  by (auto simp: getGithubTokenForUser_def select_maybeSingle_def db_call_def
        caught_status_def error_defs
        split: prod.splits sum.splits option.splits if_splits)

lemma getGithubTokenForUser_tables:
  "projects (snd (getGithubTokenForUser u w)) = projects w"
  "github_repo (snd (getGithubTokenForUser u w)) = github_repo w"
  "new_row_columns (snd (getGithubTokenForUser u w)) = new_row_columns w"
  "now (snd (getGithubTokenForUser u w)) = now w"
  by (auto simp: getGithubTokenForUser_def select_maybeSingle_def db_call_def
        split: prod.splits sum.splits option.splits)

lemma importSchema_parse_error: "importSchema_parse j = Inl e \<Longrightarrow> caught_status e = 500"
  by (auto simp: importSchema_parse_def caught_status_def error_defs
        split: json.splits option.splits if_splits)

lemma request_json_error: "request_json req = Inl e \<Longrightarrow> caught_status e = 500"
  by (auto simp: request_json_def caught_status_def error_defs split: option.splits)

lemma upsert_project_result:
  assumes "upsert_project rec w = (Inr row, w')"
  shows "projects w' =
           upsert_rows github_repo_id (\<lambda>r. upserted_row rec (project_record.more r))
             (upserted_row rec (new_row_columns w)) (projects w) \<and>
         filter (\<lambda>r. github_repo_id r = github_repo_id rec) (projects w') = [row]"
  using assms
  by (auto simp: upsert_project_def db_call_def Let_def
        split: option.splits list.splits)

text \<open>What a 201 of POST /api/projects means.\<close>

lemma POST_projects_created:
  assumes "POST_projects req w = (res, w')" "http_status res = 201"
  shows "\<exists>user fullName tok st text repo row.
           github_repo w tok fullName = FetchResponse st text (Some repo) \<and> response_ok st \<and>
           projects w' =
             upsert_rows github_repo_id
               (\<lambda>r. upserted_row (import_record user fullName repo (now w)) (project_record.more r))
               (upserted_row (import_record user fullName repo (now w)) (new_row_columns w))
               (projects w) \<and>
           filter (\<lambda>r. github_repo_id r = repo_id repo) (projects w') = [row] \<and>
           data (body res) = Some (Project (Some row))"
proof (cases "assertSupabaseUser req w")
  case (Pair r w1)
  show ?thesis
  proof (cases r)
    case (Inl e)
    with Pair assms assertSupabaseUser_failure[of req w e w1] show ?thesis
      by (auto simp: POST_projects_def catch_response_fields)
  next
    case (Inr user)
    from assertSupabaseUser_ok[OF Pair[unfolded Inr]] obtain t
      where w1: "w1 = log_call (AuthGetUser t) w" by blast
    have auth: "assertSupabaseUser req w = (Inr user, w1)" using Pair Inr by simp
    show ?thesis
    proof (cases "request_json req")
      case (Inl e)
      with assms request_json_error[OF Inl] show ?thesis
        by (auto simp: POST_projects_def auth catch_response_fields)
    next
      case j: (Inr j)
      show ?thesis
      proof (cases "importSchema_parse j")
        case (Inl e)
        with assms importSchema_parse_error[OF Inl] show ?thesis
          by (auto simp: POST_projects_def auth j catch_response_fields)
      next
        case fn: (Inr fullName)
        obtain r2 w2 where g: "getGithubTokenForUser (uid user) w1 = (r2, w2)"
          by (cases "getGithubTokenForUser (uid user) w1") blast
        from getGithubTokenForUser_tables[of "uid user" w1] g
        have t2: "projects w2 = projects w" "github_repo w2 = github_repo w"
          "new_row_columns w2 = new_row_columns w" "now w2 = now w"
          by (simp_all add: w1)
        show ?thesis
        proof (cases r2)
          case (Inl e)
          with assms getGithubTokenForUser_error[OF g[unfolded Inl]] show ?thesis
            by (auto simp: POST_projects_def auth j fn g catch_response_fields)
        next
          case tok: (Inr tok)
          define w3 where "w3 = log_call (GithubFetch (''/repos/'' @ fullName)) w2"
          have f: "fetchRepoByFullName tok fullName w2 =
                     (github_reply ''GitHub request failed with '' (github_repo w tok fullName), w3)"
            by (simp add: fetchRepoByFullName_def githubRequest_def t2 w3_def)
          have t3: "projects w3 = projects w" "new_row_columns w3 = new_row_columns w" "now w3 = now w"
            by (simp_all add: w3_def t2)
          show ?thesis
          proof (cases "github_reply ''GitHub request failed with '' (github_repo w tok fullName)")
            case (Inl e)
            with assms github_reply_error[OF Inl] show ?thesis
              by (auto simp: POST_projects_def auth j fn g tok f catch_response_fields)
          next
            case repo: (Inr repo)
            then obtain st btext where rp: "github_repo w tok fullName = FetchResponse st btext (Some repo)"
              "response_ok st"
              by (auto simp: github_reply_def split: fetch_reply.splits if_splits option.splits)
            let ?rec = "import_record user fullName repo (now w)"
            obtain r4 w4 where u: "upsert_project ?rec w3 = (r4, w4)"
              by (cases "upsert_project ?rec w3") blast
            show ?thesis
            proof (cases r4)
              case (Inl e)
              with assms show ?thesis
                by (auto simp: POST_projects_def auth j fn g tok f repo t3 u catch_response_fields
                      caught_status_def new_Error_def)
            next
              case row: (Inr row)
              have gid: "github_repo_id ?rec = repo_id repo"
                by (simp add: import_record_def)
              from upsert_project_result[OF u[unfolded row]]
              have "projects w4 =
                      upsert_rows github_repo_id (\<lambda>r. upserted_row ?rec (project_record.more r))
                        (upserted_row ?rec (new_row_columns w3)) (projects w3)"
                and "filter (\<lambda>r. github_repo_id r = github_repo_id ?rec) (projects w4) = [row]"
                by blast+
              then have "projects w4 =
                      upsert_rows github_repo_id (\<lambda>r. upserted_row ?rec (project_record.more r))
                        (upserted_row ?rec (new_row_columns w)) (projects w)"
                and "filter (\<lambda>r. github_repo_id r = repo_id repo) (projects w4) = [row]"
                unfolding t3 gid by blast+
              moreover have "res = json_response_status
                                      (standardResponse True (Some (Project (Some row))) 201 None) 201"
                and "w' = w4"
                using assms(1) by (simp_all add: POST_projects_def auth j fn g tok f repo t3 u row)
              ultimately have concl:
                "github_repo w tok fullName = FetchResponse st btext (Some repo) \<and> response_ok st \<and>
                 projects w' =
                   upsert_rows github_repo_id
                     (\<lambda>r. upserted_row ?rec (project_record.more r))
                     (upserted_row ?rec (new_row_columns w))
                     (projects w) \<and>
                 filter (\<lambda>r. github_repo_id r = repo_id repo) (projects w') = [row] \<and>
                 data (body res) = Some (Project (Some row))"
                using rp by (simp add: response_defs)
              show ?thesis
                by (rule exI[of _ user], rule exI[of _ fullName], rule exI[of _ tok],
                    rule exI[of _ st], rule exI[of _ btext], rule exI[of _ repo],
                    rule exI[of _ row]) (rule concl)
            qed
          qed
        qed
      qed
    qed
  qed
qed

lemma import_record_fields:
  "github_repo_id (import_record u f r t) = repo_id r"
  "name (import_record u f r t) = repo_name r"
  "description (import_record u f r t) = repo_description r"
  "language (import_record u f r t) = repo_language r"
  "stars (import_record u f r t) = nullish_int (stargazers_count r)"
  "forks (import_record u f r t) = nullish_int (forks_count r)"
  "pushed_at (import_record u f r t) = repo_pushed_at r"
  "created_at_github (import_record u f r t) = repo_created_at r"
  "updated_at_github (import_record u f r t) = repo_updated_at r"
  "last_synced_at (import_record u f r t) = t"
  "visibility_prop (project_record.more (import_record u f r t)) = repo_visibility r"
  "owner_username_prop (project_record.more (import_record u f r t)) =
     (case owner_login r of None \<Rightarrow> Undefined | Some l \<Rightarrow> Defined l)"
  by (simp_all add: import_record_def)

text \<open>
  Claim C5. With the repository id unique in the projects table, two imports that both
  succeed (201) and return rows with the same third-party repository id leave exactly one
  row with that id: the second import adds no row, the row is the one the second import
  returns, it keeps the columns the import does not write (row id, notes, tags, status,
  update time), and its snapshot columns (name, stars, forks, description, language,
  timestamps) are those of the repository fetched by the second import. The columns
  \<^verbatim>\<open>visibility\<close> and \<^verbatim>\<open>owner_username\<close> take the fetched value when the import sends
  one and keep the stored value when it does not.
\<close>

theorem reimport_updates_single_row:
  assumes unique: "distinct (map github_repo_id (projects w))"
    and first: "POST_projects req1 w = (res1, wa)" "http_status res1 = 201"
               "data (body res1) = Some (Project (Some row1))"
    and between: "projects wb = projects wa"
    and second: "POST_projects req2 wb = (res2, wc)" "http_status res2 = 201"
                "data (body res2) = Some (Project (Some row2))"
    and same: "github_repo_id row2 = github_repo_id row1"
  shows "filter (\<lambda>p. github_repo_id p = github_repo_id row1) (projects wc) = [row2] \<and>
         length (projects wc) = length (projects wa) \<and>
         distinct (map github_repo_id (projects wc)) \<and>
         row_id (project_record.more row2) = row_id (project_record.more row1) \<and>
         notes_col (project_record.more row2) = notes_col (project_record.more row1) \<and>
         tags (project_record.more row2) = tags (project_record.more row1) \<and>
         status (project_record.more row2) = status (project_record.more row1) \<and>
         updated_at (project_record.more row2) = updated_at (project_record.more row1) \<and>
         (\<exists>fullName tok st text repo.
            github_repo wb tok fullName = FetchResponse st text (Some repo) \<and> response_ok st \<and>
            github_repo_id row2 = repo_id repo \<and>
            name row2 = repo_name repo \<and>
            stars row2 = nullish_int (stargazers_count repo) \<and>
            forks row2 = nullish_int (forks_count repo) \<and>
            description row2 = repo_description repo \<and>
            language row2 = repo_language repo \<and>
            pushed_at row2 = repo_pushed_at repo \<and>
            created_at_github row2 = repo_created_at repo \<and>
            updated_at_github row2 = repo_updated_at repo \<and>
            last_synced_at row2 = now wb \<and>
            visibility (project_record.more row2) =
              (case repo_visibility repo of
                 Undefined \<Rightarrow> visibility (project_record.more row1)
               | Defined v \<Rightarrow> v) \<and>
            owner_username (project_record.more row2) =
              (case owner_login repo of
                 None \<Rightarrow> owner_username (project_record.more row1)
               | Some l \<Rightarrow> Some l))"
proof -
  from POST_projects_created[OF first(1,2)] first(3)
  obtain user1 fullName1 repo1 where
    p1: "projects wa =
           upsert_rows github_repo_id
             (\<lambda>r. upserted_row (import_record user1 fullName1 repo1 (now w)) (project_record.more r))
             (upserted_row (import_record user1 fullName1 repo1 (now w)) (new_row_columns w))
             (projects w)"
    and f1: "filter (\<lambda>r. github_repo_id r = repo_id repo1) (projects wa) = [row1]"
    by auto
  have d1: "distinct (map github_repo_id (projects wa))"
    unfolding p1 using unique by (intro upsert_rows_distinct) (simp_all add: import_record_fields)
  from filter_singleton_mem[OF f1] have m1: "row1 \<in> set (projects wa)"
    and k1: "github_repo_id row1 = repo_id repo1" by simp_all
  from POST_projects_created[OF second(1,2)] second(3)
  obtain user fullName tok st btext repo where
    rp: "github_repo wb tok fullName = FetchResponse st btext (Some repo)" "response_ok st"
    and p2: "projects wc =
           upsert_rows github_repo_id
             (\<lambda>r. upserted_row (import_record user fullName repo (now wb)) (project_record.more r))
             (upserted_row (import_record user fullName repo (now wb)) (new_row_columns wb))
             (projects wa)"
    and f2: "filter (\<lambda>r. github_repo_id r = repo_id repo) (projects wc) = [row2]"
    unfolding between by auto
  let ?rec = "import_record user fullName repo (now wb)"
  let ?new = "upserted_row ?rec (new_row_columns wb)"
  let ?merge = "\<lambda>r. upserted_row ?rec (project_record.more r)"
  from filter_singleton_mem[OF f2] have k2: "github_repo_id row2 = repo_id repo" by simp
  have key: "github_repo_id ?new = github_repo_id row1"
    using k2 same by (simp add: import_record_fields)
  have mem: "github_repo_id ?new \<in> github_repo_id ` set (projects wa)"
    unfolding key using m1 by blast
  have keep: "\<And>r. github_repo_id r = github_repo_id ?new \<Longrightarrow> github_repo_id (?merge r) = github_repo_id ?new"
    by simp
  have len: "length (projects wc) = length (projects wa)"
    unfolding p2 by (rule upsert_rows_length[OF mem])
  have d2: "distinct (map github_repo_id (projects wc))"
    unfolding p2 using d1 keep by (rule upsert_rows_distinct)
  have "filter (\<lambda>r. github_repo_id r = github_repo_id ?new) (projects wc) =
          map ?merge (filter (\<lambda>r. github_repo_id r = github_repo_id ?new) (projects wa))"
    unfolding p2 using mem keep by (rule upsert_rows_filter)
  then have "filter (\<lambda>r. github_repo_id r = github_repo_id row1) (projects wc) = [?merge row1]"
    unfolding key using f1 k1 by simp
  moreover have one: "filter (\<lambda>r. github_repo_id r = github_repo_id row1) (projects wc) = [row2]"
    using f2 k2 same by simp
  ultimately have r2: "row2 = ?merge row1" by simp
  have concl: "github_repo wb tok fullName = FetchResponse st btext (Some repo) \<and> response_ok st \<and>
            github_repo_id row2 = repo_id repo \<and>
            name row2 = repo_name repo \<and>
            stars row2 = nullish_int (stargazers_count repo) \<and>
            forks row2 = nullish_int (forks_count repo) \<and>
            description row2 = repo_description repo \<and>
            language row2 = repo_language repo \<and>
            pushed_at row2 = repo_pushed_at repo \<and>
            created_at_github row2 = repo_created_at repo \<and>
            updated_at_github row2 = repo_updated_at repo \<and>
            last_synced_at row2 = now wb \<and>
            visibility (project_record.more row2) =
              (case repo_visibility repo of
                 Undefined \<Rightarrow> visibility (project_record.more row1)
               | Defined v \<Rightarrow> v) \<and>
            owner_username (project_record.more row2) =
              (case owner_login repo of
                 None \<Rightarrow> owner_username (project_record.more row1)
               | Some l \<Rightarrow> Some l)"
    using rp by (simp add: r2 import_record_fields split: option.splits)
  have ex: "\<exists>fullName tok st text repo.
            github_repo wb tok fullName = FetchResponse st text (Some repo) \<and> response_ok st \<and>
            github_repo_id row2 = repo_id repo \<and>
            name row2 = repo_name repo \<and>
            stars row2 = nullish_int (stargazers_count repo) \<and>
            forks row2 = nullish_int (forks_count repo) \<and>
            description row2 = repo_description repo \<and>
            language row2 = repo_language repo \<and>
            pushed_at row2 = repo_pushed_at repo \<and>
            created_at_github row2 = repo_created_at repo \<and>
            updated_at_github row2 = repo_updated_at repo \<and>
            last_synced_at row2 = now wb \<and>
            visibility (project_record.more row2) =
              (case repo_visibility repo of
                 Undefined \<Rightarrow> visibility (project_record.more row1)
               | Defined v \<Rightarrow> v) \<and>
            owner_username (project_record.more row2) =
              (case owner_login repo of
                 None \<Rightarrow> owner_username (project_record.more row1)
               | Some l \<Rightarrow> Some l)"
    by (rule exI[of _ fullName], rule exI[of _ tok],
        rule exI[of _ st], rule exI[of _ btext], rule exI[of _ repo]) (rule concl)
  have keep_cols:
    "row_id (project_record.more row2) = row_id (project_record.more row1)"
    "notes_col (project_record.more row2) = notes_col (project_record.more row1)"
    "tags (project_record.more row2) = tags (project_record.more row1)"
    "status (project_record.more row2) = status (project_record.more row1)"
    "updated_at (project_record.more row2) = updated_at (project_record.more row1)"
    by (simp_all add: r2)
  with one len d2 ex show ?thesis by blast
qed

lemma sample_import_ok:
  "importSchema_parse (JObject [(''repository_full_name'', JString ''octocat/Hello-World'')]) =
     Inr ''octocat/Hello-World''"
  by (simp add: importSchema_parse_def field_def owner_repo_regex_def)

lemma first_import_eval:
  "fst first_import =
     json_response_status (standardResponse True (Some (Project (Some first_row))) 201 None) 201"
  "projects (snd first_import) = [spoon_project, first_row]"
  "user_tokens (snd first_import) = user_tokens sample_world"
  "auth_getUser (snd first_import) = auth_getUser sample_world"
  "db_fault (snd first_import) = db_fault sample_world"
  "new_row_columns (snd first_import) = new_row_columns sample_world"
  by (simp_all add: first_import_def POST_projects_def sample_import_sessions request_json_def
        sample_requests sample_import_ok getGithubTokenForUser_def select_maybeSingle_ok
        sample_no_fault maybeSingle_def fetchRepoByFullName_def githubRequest_def github_reply_def
        response_ok_def upsert_project_def db_call_def upsert_rows_def hello_row_def first_row_def
        sample_world_fields sample_users spoon_project_def import_record_fields hello_world_def)

lemma later_world_fields:
  "projects later_world = [spoon_project, first_row]"
  "user_tokens later_world = user_tokens sample_world"
  "auth_getUser later_world = auth_getUser sample_world"
  "db_fault later_world n = None"
  "new_row_columns later_world = new_row_columns sample_world"
  "github_repo later_world t f = FetchResponse 200 ''{}'' (Some hello_world_later)"
  "now later_world = ''2024-02-02T00:00:00.000Z''"
  by (simp_all add: later_world_def first_import_eval sample_world_fields)

lemma second_session:
  "assertSupabaseUser (import_request ''jwt-dev'' n) later_world =
     (Inr dev_user, log_call (AuthGetUser ''jwt-dev'') later_world)"
  by (simp add: assertSupabaseUser_def import_request_def sample_tokens later_world_fields
        sample_world_def)

lemma hello_row_key:
  "github_repo_id first_row = 1296269"
  "github_repo_id second_row = 1296269"
  by (simp_all add: first_row_def second_row_def hello_row_def import_record_fields
        hello_world_def hello_world_later_def)

lemma second_import_eval:
  "fst second_import =
     json_response_status (standardResponse True (Some (Project (Some second_row))) 201 None) 201"
  "projects (snd second_import) = [spoon_project, second_row]"
  by (simp_all add: second_import_def POST_projects_def second_session request_json_def
        sample_requests sample_import_ok getGithubTokenForUser_def select_maybeSingle_ok
        maybeSingle_def fetchRepoByFullName_def githubRequest_def github_reply_def
        response_ok_def upsert_project_def db_call_def upsert_rows_def hello_row_def
        second_row_def hello_row_key later_world_fields sample_world_fields sample_users
        spoon_project_def import_record_fields hello_world_later_def hello_world_def)

theorem reimport_updates_single_row_witness:
  "filter (\<lambda>p. github_repo_id p = 1296269) (projects (snd second_import)) = [second_row] \<and>
   length (projects (snd second_import)) = length (projects (snd first_import)) \<and>
   name second_row = ''Hello-Universe'' \<and>
   stars second_row = 95 \<and>
   row_id (project_record.more second_row) = ''p2'' \<and>
   visibility (project_record.more second_row) = Some ''public'' \<and>
   owner_username (project_record.more second_row) = Some ''octocat''"
proof -
  have a: "distinct (map github_repo_id (projects sample_world))"
    by (simp add: sample_world_fields)
  have b: "POST_projects (import_request ''jwt-dev'' ''octocat/Hello-World'') sample_world =
             (fst first_import, snd first_import)"
    by (simp add: first_import_def)
  have c: "http_status (fst first_import) = 201"
    by (simp add: first_import_eval response_defs)
  have d: "data (body (fst first_import)) = Some (Project (Some first_row))"
    by (simp add: first_import_eval response_defs)
  have e: "projects later_world = projects (snd first_import)"
    by (simp add: later_world_fields first_import_eval)
  have f: "POST_projects (import_request ''jwt-dev'' ''octocat/Hello-World'') later_world =
             (fst second_import, snd second_import)"
    by (simp add: second_import_def)
  have g: "http_status (fst second_import) = 201"
    by (simp add: second_import_eval response_defs)
  have h: "data (body (fst second_import)) = Some (Project (Some second_row))"
    by (simp add: second_import_eval response_defs)
  have i: "github_repo_id second_row = github_repo_id first_row"
    by (simp add: hello_row_key)
  from reimport_updates_single_row[OF a b c d e f g h i]
  have "filter (\<lambda>p. github_repo_id p = github_repo_id first_row) (projects (snd second_import)) =
          [second_row]"
    and "length (projects (snd second_import)) = length (projects (snd first_import))"
    and "row_id (project_record.more second_row) = row_id (project_record.more first_row)"
    by blast+
  then have "filter (\<lambda>p. github_repo_id p = 1296269) (projects (snd second_import)) = [second_row]"
    and "length (projects (snd second_import)) = length (projects (snd first_import))"
    and "row_id (project_record.more second_row) = row_id (project_record.more first_row)"
    by (simp_all only: hello_row_key)
  moreover have "name second_row = ''Hello-Universe''"
    and "stars second_row = 95"
    and "row_id (project_record.more first_row) = ''p2''"
    and "visibility (project_record.more second_row) = Some ''public''"
    and "owner_username (project_record.more second_row) = Some ''octocat''"
    by (simp_all add: first_row_def second_row_def hello_row_def import_record_fields
          hello_world_def hello_world_later_def nullish_int_def)
  ultimately show ?thesis by simp
qed

section \<open>The expert view\<close>

lemma group_update_other:
  "k \<notin> owner_id ` set acc \<Longrightarrow>
     map (\<lambda>g. if owner_id g = k then g\<lparr>group_projects := group_projects g @ [p]\<rparr> else g) acc = acc"
  by (induction acc) auto

lemma group_update_owner_ids:
  "map owner_id (map (\<lambda>g. if owner_id g = k then g\<lparr>group_projects := group_projects g @ [p]\<rparr> else g) acc) =
     map owner_id acc"
  by (induction acc) auto

lemma group_update_mset:
  assumes "distinct (map owner_id acc)" "k \<in> owner_id ` set acc"
  shows "mset (concat (map group_projects
            (map (\<lambda>g. if owner_id g = k then g\<lparr>group_projects := group_projects g @ [p]\<rparr> else g) acc))) =
         add_mset p (mset (concat (map group_projects acc)))"
  using assms
proof (induction acc)
  case Nil
  then show ?case by simp
next
  case (Cons g acc)
  show ?case
  proof (cases "owner_id g = k")
    case True
    with Cons.prems have "k \<notin> owner_id ` set acc" by auto
    from group_update_other[OF this] True show ?thesis by simp
  next
    case False
    with Cons.prems have "distinct (map owner_id acc)" "k \<in> owner_id ` set acc" by auto
    from Cons.IH[OF this] False show ?thesis by simp
  qed
qed

lemma group_step_ok:
  assumes "groups_ok acc"
  shows "groups_ok (group_step acc p) \<and>
         mset (concat (map group_projects (group_step acc p))) =
           add_mset p (mset (concat (map group_projects acc)))"
proof (cases "(case user_id (fst p) of None \<Rightarrow> ''unknown'' | Some u \<Rightarrow> u) \<in> owner_id ` set acc")
  case True
  let ?k = "case user_id (fst p) of None \<Rightarrow> ''unknown'' | Some u \<Rightarrow> u"
  have step: "group_step acc p =
          map (\<lambda>g. if owner_id g = ?k then g\<lparr>group_projects := group_projects g @ [p]\<rparr> else g) acc"
    using True by (simp add: group_step_def Let_def)
  have "groups_ok (group_step acc p)"
    unfolding step groups_ok_def group_update_owner_ids
    using assms by (fastforce simp: groups_ok_def)
  moreover have "mset (concat (map group_projects (group_step acc p))) =
           add_mset p (mset (concat (map group_projects acc)))"
    unfolding step using assms True by (intro group_update_mset) (simp_all add: groups_ok_def)
  ultimately show ?thesis by blast
next
  case False
  then show ?thesis
    using assms by (auto simp: group_step_def Let_def groups_ok_def)
qed

lemma foldl_group_step_ok:
  assumes "groups_ok acc"
  shows "groups_ok (foldl group_step acc ps) \<and>
         mset (concat (map group_projects (foldl group_step acc ps))) =
           mset ps + mset (concat (map group_projects acc))"
  using assms
proof (induction ps arbitrary: acc)
  case Nil
  then show ?case by simp
next
  case (Cons p ps)
  from group_step_ok[OF Cons.prems, of p]
  have ok: "groups_ok (group_step acc p)"
    and ms: "mset (concat (map group_projects (group_step acc p))) =
               add_mset p (mset (concat (map group_projects acc)))"
    by blast+
  from Cons.IH[OF ok] ms show ?case by simp
qed

lemma grouped_ok:
  "groups_ok (grouped ps) \<and> mset (concat (map group_projects (grouped ps))) = mset ps"
  using foldl_group_step_ok[of "[]" ps] by (simp add: grouped_def groups_ok_def)

text \<open>
  Claim C9. For every authenticated caller, whatever their profile role (the statement
  asks nothing of it, and the handler never reads the caller's profile),
  GET /api/projects?view=expert answers 200 with all projects of the table grouped by
  owner (the datastore answering its queries): every project appears exactly once, there
  is one non-empty group for each owner id, and every project is in the group of its
  owner.
\<close>

theorem expert_view_for_every_caller:
  assumes auth: "assertSupabaseUser req w = (Inr user, w1)"
    and view: "searchParams_get req ''view'' = Some ''expert''"
    and nofault: "\<forall>n. db_fault w n = None"
  shows "\<exists>gs. fst (GET_projects req w) = ok_response (Grouped gs) \<and>
              http_status (fst (GET_projects req w)) = 200 \<and>
              success (body (fst (GET_projects req w))) = True \<and>
              mset (map fst (concat (map group_projects gs))) = mset (projects w) \<and>
              distinct (map owner_id gs) \<and>
              (\<forall>g\<in>set gs. group_projects g \<noteq> [] \<and>
                 (\<forall>p\<in>set (group_projects g).
                    (case user_id (fst p) of None \<Rightarrow> ''unknown'' | Some u \<Rightarrow> u) = owner_id g))"
proof -
  from assertSupabaseUser_ok[OF auth] obtain t where w1: "w1 = log_call (AuthGetUser t) w" by blast
  have nf1: "\<forall>n. db_fault w1 n = None" using nofault by (simp add: w1)
  have tabs: "profiles w1 = profiles w" "projects w1 = projects w" by (simp_all add: w1)
  define projectsData where "projectsData = sort_key (\<lambda>p. - stars p) (projects w)"
  define w2 where "w2 = log_call (DbSelect ''projects'') w1"
  define profilesData where
    "profilesData = filter (\<lambda>p. profile_id p \<in> set (uniq (truthy_user_ids projectsData))) (profiles w)"
  define pwp where
    "pwp = map (\<lambda>project.
                  (project,
                   case user_id project of
                     None \<Rightarrow> None
                   | Some u \<Rightarrow> map_of (rev (map (\<lambda>p. (profile_id p, p)) profilesData)) u)) projectsData"
  have nf2: "\<forall>n. db_fault w2 n = None" using nf1 by (simp add: w2_def)
  have tabs2: "profiles w2 = profiles w" by (simp add: w2_def tabs)
  have s1: "select_rows ''projects'' (sort_key (\<lambda>p. - stars p) (projects w1)) w1 = (Inr projectsData, w2)"
    by (simp add: select_rows_ok[OF nf1] tabs projectsData_def w2_def)
  have s2: "select_rows ''profiles''
              (filter (\<lambda>p. profile_id p \<in> set (uniq (truthy_user_ids projectsData))) (profiles w2)) w2 =
            (Inr profilesData, log_call (DbSelect ''profiles'') w2)"
    by (simp add: select_rows_ok[OF nf2] profilesData_def tabs2)
  have r: "fst (GET_projects req w) = ok_response (Grouped (grouped pwp))"
    by (simp add: GET_projects_def auth view s1 s2 Let_def pwp_def)
  have fs: "map fst pwp = projectsData"
    by (simp add: pwp_def comp_def)
  from grouped_ok[of pwp] have ok: "groups_ok (grouped pwp)"
    and ms: "mset (concat (map group_projects (grouped pwp))) = mset pwp" by blast+
  have "mset (map fst (concat (map group_projects (grouped pwp)))) = mset (map fst pwp)"
    using ms by (metis mset_map)
  then have m: "mset (map fst (concat (map group_projects (grouped pwp)))) = mset (projects w)"
    by (simp add: fs projectsData_def)
  have "fst (GET_projects req w) = ok_response (Grouped (grouped pwp)) \<and>
              http_status (fst (GET_projects req w)) = 200 \<and>
              success (body (fst (GET_projects req w))) = True \<and>
              mset (map fst (concat (map group_projects (grouped pwp)))) = mset (projects w) \<and>
              distinct (map owner_id (grouped pwp)) \<and>
              (\<forall>g\<in>set (grouped pwp). group_projects g \<noteq> [] \<and>
                 (\<forall>p\<in>set (group_projects g).
                    (case user_id (fst p) of None \<Rightarrow> ''unknown'' | Some u \<Rightarrow> u) = owner_id g))"
    using r m ok by (simp add: groups_ok_def ok_response_fields)
  then show ?thesis by (rule exI[of _ "grouped pwp"])
qed

theorem expert_view_witness:
  "filter (\<lambda>p. profile_id p = uid dev_user) (profiles sample_world) =
     [\<lparr>profile_id = ''dev-1'', username = Some ''octocat'', full_name = None,
       role = Some developer, avatar_url = None\<rparr>] \<and>
   http_status (fst (GET_projects (request_with ''jwt-dev'' [(''view'', ''expert'')] None) sample_world)) = 200 \<and>
   success (body (fst (GET_projects (request_with ''jwt-dev'' [(''view'', ''expert'')] None) sample_world))) = True \<and>
   (\<exists>gs. data (body (fst (GET_projects (request_with ''jwt-dev'' [(''view'', ''expert'')] None) sample_world))) =
            Some (Grouped gs) \<and>
         mset (map fst (concat (map group_projects gs))) = {#spoon_project#})"
proof -
  have a: "assertSupabaseUser (request_with ''jwt-dev'' [(''view'', ''expert'')] None) sample_world =
        (Inr dev_user, log_call (AuthGetUser ''jwt-dev'') sample_world)"
    by (rule sample_sessions)
  have b: "searchParams_get (request_with ''jwt-dev'' [(''view'', ''expert'')] None) ''view'' = Some ''expert''"
    by (simp add: searchParams_get_def sample_requests)
  have c: "filter (\<lambda>p. profile_id p = uid dev_user) (profiles sample_world) =
     [\<lparr>profile_id = ''dev-1'', username = Some ''octocat'', full_name = None,
       role = Some developer, avatar_url = None\<rparr>]"
    by (simp add: sample_world_fields sample_users)
  from expert_view_for_every_caller[OF a b sample_no_fault] c show ?thesis
    by (auto simp: sample_world_fields ok_response_fields)
qed

end
